theory Spec2Isabelle
  imports Complex_Main
begin

section \<open>Data model of the augmentation pipeline\<close>

text \<open>
  The development embeds \<^verbatim>\<open>AugmentPipe\<close> of
  \<^verbatim>\<open>core/differentiable_augmentation/augment.py\<close>. Floating-point tensors are
  modelled over the reals; a rank-4 tensor carries its shape and a pixel function.
\<close>

datatype error = ValueError | AssertionError | IndexError | RuntimeError

record tensor =
  dim_n :: nat
  dim_c :: nat
  dim_h :: nat
  dim_w :: nat
  px :: "nat \<Rightarrow> nat \<Rightarrow> nat \<Rightarrow> nat \<Rightarrow> real"

type_synonym vec3 = "real \<times> real \<times> real"
type_synonym mat3 = "vec3 \<times> vec3 \<times> vec3"
type_synonym vec4 = "real \<times> real \<times> real \<times> real"
type_synonym mat4 = "vec4 \<times> vec4 \<times> vec4 \<times> vec4"

text \<open>
  \<^verbatim>\<open>G_inv\<close> and \<^verbatim>\<open>C\<close> start as the very objects \<^verbatim>\<open>I_3\<close> and
  \<^verbatim>\<open>I_4\<close>; every product \<^verbatim>\<open>G_inv @ M\<close> allocates a fresh batched tensor.
  The executors test \<^verbatim>\<open>G_inv is not I_3\<close>, so the model keeps the aliasing apart
  from the value.
\<close>

datatype 'm acc = Eye_object | Fresh "nat \<Rightarrow> 'm"

definition I_3 :: mat3 where
  "I_3 = ((1, 0, 0), (0, 1, 0), (0, 0, 1))"

definition I_4 :: mat4 where
  "I_4 = ((1, 0, 0, 0), (0, 1, 0, 0), (0, 0, 1, 0), (0, 0, 0, 1))"

fun dot3 :: "vec3 \<Rightarrow> vec3 \<Rightarrow> real" where
  "dot3 (a, b, c) (x, y, z) = a * x + b * y + c * z"

fun cols3 :: "mat3 \<Rightarrow> mat3" where
  "cols3 ((a, b, c), (d, e, f), (g, h, i)) = ((a, d, g), (b, e, h), (c, f, i))"

fun mm3 :: "mat3 \<Rightarrow> mat3 \<Rightarrow> mat3" where
  "mm3 (r0, r1, r2) B =
     (case cols3 B of (c0, c1, c2) \<Rightarrow>
        ((dot3 r0 c0, dot3 r0 c1, dot3 r0 c2),
         (dot3 r1 c0, dot3 r1 c1, dot3 r1 c2),
         (dot3 r2 c0, dot3 r2 c1, dot3 r2 c2)))"

fun dot4 :: "vec4 \<Rightarrow> vec4 \<Rightarrow> real" where
  "dot4 (a, b, c, d) (x, y, z, w) = a * x + b * y + c * z + d * w"

fun cols4 :: "mat4 \<Rightarrow> mat4" where
  "cols4 ((a, b, c, d), (e, f, g, h), (i, j, k, l), (m, n, p, q)) =
     ((a, e, i, m), (b, f, j, n), (c, g, k, p), (d, h, l, q))"

fun mm4 :: "mat4 \<Rightarrow> mat4 \<Rightarrow> mat4" where
  "mm4 (r0, r1, r2, r3) B =
     (case cols4 B of (c0, c1, c2, c3) \<Rightarrow>
        ((dot4 r0 c0, dot4 r0 c1, dot4 r0 c2, dot4 r0 c3),
         (dot4 r1 c0, dot4 r1 c1, dot4 r1 c2, dot4 r1 c3),
         (dot4 r2 c0, dot4 r2 c1, dot4 r2 c2, dot4 r2 c3),
         (dot4 r3 c0, dot4 r3 c1, dot4 r3 c2, dot4 r3 c3)))"

text \<open>
  \<^verbatim>\<open>G_inv @ M\<close> with a batched right operand and \<^verbatim>\<open>M @ G_inv\<close> with a
  batched or constant left operand; the \<^verbatim>\<open>I_3\<close> object broadcasts over the batch.
\<close>

definition value3 :: "mat3 acc \<Rightarrow> nat \<Rightarrow> mat3" where
  "value3 G b = (case G of Eye_object \<Rightarrow> I_3 | Fresh f \<Rightarrow> f b)"

definition value4 :: "mat4 acc \<Rightarrow> nat \<Rightarrow> mat4" where
  "value4 C b = (case C of Eye_object \<Rightarrow> I_4 | Fresh f \<Rightarrow> f b)"

definition matmul_r3 :: "mat3 acc \<Rightarrow> (nat \<Rightarrow> mat3) \<Rightarrow> mat3 acc" where
  "matmul_r3 G M = Fresh (\<lambda>b. mm3 (value3 G b) (M b))"

definition matmul_l3 :: "(nat \<Rightarrow> mat3) \<Rightarrow> mat3 acc \<Rightarrow> mat3 acc" where
  "matmul_l3 M G = Fresh (\<lambda>b. mm3 (M b) (value3 G b))"

definition matmul_l4 :: "(nat \<Rightarrow> mat4) \<Rightarrow> mat4 acc \<Rightarrow> mat4 acc" where
  "matmul_l4 M C = Fresh (\<lambda>b. mm4 (M b) (value4 C b))"

subsection \<open>Matrix builders\<close>

text \<open>
  \<^verbatim>\<open>forward\<close> calls the module-level helpers \<^verbatim>\<open>translate2d\<close>,
  \<^verbatim>\<open>scale2d\<close>, \<^verbatim>\<open>rotate2d\<close>, their \<^verbatim>\<open>_inv\<close> variants,
  \<^verbatim>\<open>translate3d\<close>, \<^verbatim>\<open>scale3d\<close> and \<^verbatim>\<open>rotate3d\<close>, whose bodies
  are not part of the source file. The spec describes them as pure constructors of
  homogeneous 3x3 and 4x4 matrices with closed-form inverses.
\<close>

text \<open>Modelled from the spec: \<^verbatim>\<open>translate(tx, ty)\<close>, the homogeneous 2D translation.\<close>

definition translate2d :: "real \<Rightarrow> real \<Rightarrow> mat3" where
  "translate2d tx ty = ((1, 0, tx), (0, 1, ty), (0, 0, 1))"

text \<open>Modelled from the spec: \<^verbatim>\<open>scale(sx, sy)\<close>, the homogeneous 2D scaling.\<close>

definition scale2d :: "real \<Rightarrow> real \<Rightarrow> mat3" where
  "scale2d sx sy = ((sx, 0, 0), (0, sy, 0), (0, 0, 1))"

text \<open>Modelled from the spec: \<^verbatim>\<open>rotate(theta)\<close>, the homogeneous 2D rotation.\<close>

definition rotate2d :: "real \<Rightarrow> mat3" where
  "rotate2d theta = ((cos theta, sin (- theta), 0), (sin theta, cos theta, 0), (0, 0, 1))"

text \<open>Modelled from the spec: \<^verbatim>\<open>translate_inv(tx, ty)\<close>, closed-form by negating the
  translation.\<close>

definition translate2d_inv :: "real \<Rightarrow> real \<Rightarrow> mat3" where
  "translate2d_inv tx ty = translate2d (- tx) (- ty)"

text \<open>Modelled from the spec: \<^verbatim>\<open>scale_inv(sx, sy)\<close>, closed-form by inverting the
  factors.\<close>

definition scale2d_inv :: "real \<Rightarrow> real \<Rightarrow> mat3" where
  "scale2d_inv sx sy = scale2d (1 / sx) (1 / sy)"

text \<open>Modelled from the spec: \<^verbatim>\<open>rotate_inv(theta)\<close>, closed-form by negating the
  angle.\<close>

definition rotate2d_inv :: "real \<Rightarrow> mat3" where
  "rotate2d_inv theta = rotate2d (- theta)"

text \<open>Modelled from the spec: \<^verbatim>\<open>translate3d\<close>, the homogeneous translation of color
  vectors.\<close>

definition translate3d :: "real \<Rightarrow> real \<Rightarrow> real \<Rightarrow> mat4" where
  "translate3d tx ty tz = ((1, 0, 0, tx), (0, 1, 0, ty), (0, 0, 1, tz), (0, 0, 0, 1))"

text \<open>Modelled from the spec: \<^verbatim>\<open>scale3d\<close>, the homogeneous scaling of color vectors.\<close>

definition scale3d :: "real \<Rightarrow> real \<Rightarrow> real \<Rightarrow> mat4" where
  "scale3d sx sy sz = ((sx, 0, 0, 0), (0, sy, 0, 0), (0, 0, sz, 0), (0, 0, 0, 1))"

text \<open>Modelled from the spec: \<^verbatim>\<open>rotate3d(axis, theta)\<close>, the Rodrigues formula about
  a unit axis.\<close>

definition rotate3d :: "vec4 \<Rightarrow> real \<Rightarrow> mat4" where
  "rotate3d v theta =
     (case v of (vx, vy, vz, _) \<Rightarrow>
        let s = sin theta; c = cos theta; cc = 1 - c in
        ((vx * vx * cc + c, vx * vy * cc - vz * s, vx * vz * cc + vy * s, 0),
         (vy * vx * cc + vz * s, vy * vy * cc + c, vy * vz * cc - vx * s, 0),
         (vz * vx * cc - vy * s, vz * vy * cc + vx * s, vz * vz * cc + c, 0),
         (0, 0, 0, 1)))"

subsection \<open>Configuration, randomness and external kernels\<close>

text \<open>The attributes set by \<^verbatim>\<open>__init__\<close>, with the strength buffer \<^verbatim>\<open>p\<close>
  and the two filter buffers.\<close>

record AugmentPipe =
  p :: real
  xflip :: real
  rotate90 :: real
  xint :: real
  xint_max :: real
  scale :: real
  rotate :: real
  aniso :: real
  xfrac :: real
  scale_std :: real
  rotate_max :: real
  aniso_std :: real
  xfrac_std :: real
  brightness :: real
  contrast :: real
  lumaflip :: real
  hue :: real
  saturation :: real
  brightness_std :: real
  contrast_std :: real
  hue_max :: real
  saturation_std :: real
  imgfilter :: real
  imgfilter_bands :: "real list"
  imgfilter_std :: real
  noise :: real
  cutout :: real
  noise_std :: real
  cutout_size :: real
  Hz_geom :: "real list"
  Hz_fbank :: "real list list"

text \<open>
  Every \<^verbatim>\<open>torch.rand\<close> and \<^verbatim>\<open>torch.randn\<close> call of \<^verbatim>\<open>forward\<close> is
  a call site; the generator is an explicit input giving, per call site, the value drawn
  at each index of the requested tensor.
\<close>

datatype site =
    Xflip_i | Xflip_u | Rot90_i | Rot90_u | Xint_t | Xint_u
  | Scale_s | Scale_u | Pre_theta | Pre_u | Aniso_s | Aniso_u
  | Post_theta | Post_u | Xfrac_t | Xfrac_u
  | Bright_b | Bright_u | Contrast_c | Contrast_u | Luma_i | Luma_u
  | Hue_theta | Hue_u | Sat_s | Sat_u
  | Filt_t nat | Filt_u nat
  | Noise_sigma | Noise_u | Noise_n | Cut_u | Cut_center

record draws =
  rand :: "site \<Rightarrow> nat list \<Rightarrow> real"
  randn :: "site \<Rightarrow> nat list \<Rightarrow> real"

text \<open>\<^verbatim>\<open>torch.rand\<close> draws from the half-open unit interval.\<close>

definition unit_interval :: "draws \<Rightarrow> bool" where
  "unit_interval rnd = (\<forall>s idx. 0 \<le> rand rnd s idx \<and> rand rnd s idx < 1)"

text \<open>
  The resampling and convolution kernels of \<^verbatim>\<open>torch_utils.ops\<close> and of torch, and
  \<^verbatim>\<open>torch.erfinv\<close>, are outside the source file: they are parameters of the model.
  \<^verbatim>\<open>pad_reflect\<close> takes the pad list \<^verbatim>\<open>[left, right, top, bottom]\<close>.
\<close>

record 'g kernels =
  erfinv :: "real \<Rightarrow> real"
  pad_reflect :: "tensor \<Rightarrow> int \<times> int \<times> int \<times> int \<Rightarrow> tensor"
  upsample2d :: "tensor \<Rightarrow> real list \<Rightarrow> nat \<Rightarrow> tensor"
  downsample2d :: "tensor \<Rightarrow> real list \<Rightarrow> nat \<Rightarrow> int \<Rightarrow> bool \<Rightarrow> tensor"
  affine_grid :: "(nat \<Rightarrow> vec3 \<times> vec3) \<Rightarrow> nat \<times> nat \<times> nat \<times> nat \<Rightarrow> 'g"
  grid_sample :: "tensor \<Rightarrow> 'g \<Rightarrow> tensor"
  conv2d :: "tensor \<Rightarrow> tensor \<Rightarrow> nat \<Rightarrow> tensor"

subsection \<open>Elementwise torch primitives\<close>

definition torch_where :: "bool \<Rightarrow> 'a \<Rightarrow> 'a \<Rightarrow> 'a" where
  "torch_where c a b = (if c then a else b)"

definition torch_floor :: "real \<Rightarrow> real" where
  "torch_floor x = of_int \<lfloor>x\<rfloor>"

definition torch_ceil :: "real \<Rightarrow> int" where
  "torch_ceil x = \<lceil>x\<rceil>"

text \<open>\<^verbatim>\<open>torch.round\<close> rounds halves to the even neighbour.\<close>

definition torch_round :: "real \<Rightarrow> real" where
  "torch_round x =
     (let f = \<lfloor>x\<rfloor>; d = x - of_int f in
      if d < 1 / 2 then of_int f
      else if 1 / 2 < d then of_int (f + 1)
      else if even f then of_int f else of_int (f + 1))"

definition exp2 :: "real \<Rightarrow> real" where
  "exp2 x = 2 powr x"

definition clamp :: "real \<Rightarrow> real \<Rightarrow> real \<Rightarrow> real" where
  "clamp x lo hi = min (max x lo) hi"

section \<open>Parameter sampler\<close>

text \<open>
  Each sampler follows its three source statements: draw the magnitude, gate it with
  \<^verbatim>\<open>torch.where\<close> against the probability product, and overwrite it when
  \<^verbatim>\<open>debug_percentile\<close> is given. The result is the per-element parameter.
\<close>

definition sample_xflip :: "'g kernels \<Rightarrow> AugmentPipe \<Rightarrow> real option \<Rightarrow> draws \<Rightarrow> nat \<Rightarrow> real" where
  "sample_xflip K pipe dbg rnd b =
     (let i = torch_floor (rand rnd Xflip_i [b] * 2);
          i = torch_where (rand rnd Xflip_u [b] < xflip pipe * p pipe) i 0
      in case dbg of None \<Rightarrow> i | Some d \<Rightarrow> torch_floor (d * 2))"

definition sample_rotate90 :: "'g kernels \<Rightarrow> AugmentPipe \<Rightarrow> real option \<Rightarrow> draws \<Rightarrow> nat \<Rightarrow> real" where
  "sample_rotate90 K pipe dbg rnd b =
     (let i = torch_floor (rand rnd Rot90_i [b] * 4);
          i = torch_where (rand rnd Rot90_u [b] < rotate90 pipe * p pipe) i 0
      in case dbg of None \<Rightarrow> i | Some d \<Rightarrow> torch_floor (d * 4))"

definition sample_xint :: "'g kernels \<Rightarrow> AugmentPipe \<Rightarrow> real option \<Rightarrow> draws \<Rightarrow> nat \<Rightarrow> nat \<Rightarrow> real" where
  "sample_xint K pipe dbg rnd b k =
     (let t = (rand rnd Xint_t [b, k] * 2 - 1) * xint_max pipe;
          t = torch_where (rand rnd Xint_u [b, 0] < xint pipe * p pipe) t 0
      in case dbg of None \<Rightarrow> t | Some d \<Rightarrow> (d * 2 - 1) * xint_max pipe)"

definition sample_scale :: "'g kernels \<Rightarrow> AugmentPipe \<Rightarrow> real option \<Rightarrow> draws \<Rightarrow> nat \<Rightarrow> real" where
  "sample_scale K pipe dbg rnd b =
     (let s = exp2 (randn rnd Scale_s [b] * scale_std pipe);
          s = torch_where (rand rnd Scale_u [b] < scale pipe * p pipe) s 1
      in case dbg of None \<Rightarrow> s
         | Some d \<Rightarrow> exp2 (erfinv K (d * 2 - 1) * scale_std pipe))"

definition p_rot :: "AugmentPipe \<Rightarrow> real" where
  "p_rot pipe = 1 - sqrt (clamp (1 - rotate pipe * p pipe) 0 1)"

definition sample_pre_rotation :: "'g kernels \<Rightarrow> AugmentPipe \<Rightarrow> real option \<Rightarrow> draws \<Rightarrow> nat \<Rightarrow> real" where
  "sample_pre_rotation K pipe dbg rnd b =
     (let theta = (rand rnd Pre_theta [b] * 2 - 1) * pi * rotate_max pipe;
          theta = torch_where (rand rnd Pre_u [b] < p_rot pipe) theta 0
      in case dbg of None \<Rightarrow> theta | Some d \<Rightarrow> (d * 2 - 1) * pi * rotate_max pipe)"

definition sample_aniso :: "'g kernels \<Rightarrow> AugmentPipe \<Rightarrow> real option \<Rightarrow> draws \<Rightarrow> nat \<Rightarrow> real" where
  "sample_aniso K pipe dbg rnd b =
     (let s = exp2 (randn rnd Aniso_s [b] * aniso_std pipe);
          s = torch_where (rand rnd Aniso_u [b] < aniso pipe * p pipe) s 1
      in case dbg of None \<Rightarrow> s
         | Some d \<Rightarrow> exp2 (erfinv K (d * 2 - 1) * aniso_std pipe))"

definition sample_post_rotation :: "'g kernels \<Rightarrow> AugmentPipe \<Rightarrow> real option \<Rightarrow> draws \<Rightarrow> nat \<Rightarrow> real" where
  "sample_post_rotation K pipe dbg rnd b =
     (let theta = (rand rnd Post_theta [b] * 2 - 1) * pi * rotate_max pipe;
          theta = torch_where (rand rnd Post_u [b] < p_rot pipe) theta 0
      in case dbg of None \<Rightarrow> theta | Some d \<Rightarrow> 0)"

definition sample_xfrac :: "'g kernels \<Rightarrow> AugmentPipe \<Rightarrow> real option \<Rightarrow> draws \<Rightarrow> nat \<Rightarrow> nat \<Rightarrow> real" where
  "sample_xfrac K pipe dbg rnd b k =
     (let t = randn rnd Xfrac_t [b, k] * xfrac_std pipe;
          t = torch_where (rand rnd Xfrac_u [b, 0] < xfrac pipe * p pipe) t 0
      in case dbg of None \<Rightarrow> t | Some d \<Rightarrow> erfinv K (d * 2 - 1) * xfrac_std pipe)"

section \<open>Accumulated inverse geometric transform\<close>

text \<open>Lines 132 to 223 of \<^verbatim>\<open>forward\<close>: \<^verbatim>\<open>G_inv = I_3\<close>, then one right
  multiplication per enabled augmentation, in source order.\<close>

definition select_geometric ::
  "'g kernels \<Rightarrow> AugmentPipe \<Rightarrow> real option \<Rightarrow> draws \<Rightarrow> nat \<Rightarrow> nat \<Rightarrow> mat3 acc" where
  "select_geometric K pipe dbg rnd width height =
     (let G_inv = Eye_object;
          G_inv = (if xflip pipe > 0
                   then matmul_r3 G_inv (\<lambda>b. scale2d_inv (1 - 2 * sample_xflip K pipe dbg rnd b) 1)
                   else G_inv);
          G_inv = (if rotate90 pipe > 0
                   then matmul_r3 G_inv (\<lambda>b. rotate2d_inv (- pi / 2 * sample_rotate90 K pipe dbg rnd b))
                   else G_inv);
          G_inv = (if xint pipe > 0
                   then matmul_r3 G_inv
                          (\<lambda>b. translate2d_inv
                                  (torch_round (sample_xint K pipe dbg rnd b 0 * real width))
                                  (torch_round (sample_xint K pipe dbg rnd b 1 * real height)))
                   else G_inv);
          G_inv = (if scale pipe > 0
                   then matmul_r3 G_inv
                          (\<lambda>b. scale2d_inv (sample_scale K pipe dbg rnd b) (sample_scale K pipe dbg rnd b))
                   else G_inv);
          G_inv = (if rotate pipe > 0
                   then matmul_r3 G_inv (\<lambda>b. rotate2d_inv (- sample_pre_rotation K pipe dbg rnd b))
                   else G_inv);
          G_inv = (if aniso pipe > 0
                   then matmul_r3 G_inv
                          (\<lambda>b. scale2d_inv (sample_aniso K pipe dbg rnd b) (1 / sample_aniso K pipe dbg rnd b))
                   else G_inv);
          G_inv = (if rotate pipe > 0
                   then matmul_r3 G_inv (\<lambda>b. rotate2d_inv (- sample_post_rotation K pipe dbg rnd b))
                   else G_inv);
          G_inv = (if xfrac pipe > 0
                   then matmul_r3 G_inv
                          (\<lambda>b. translate2d_inv
                                  (sample_xfrac K pipe dbg rnd b 0 * real width)
                                  (sample_xfrac K pipe dbg rnd b 1 * real height))
                   else G_inv)
      in G_inv)"

section \<open>Geometric executor\<close>

text \<open>A raised exception ends the call: the rest of the body is skipped.\<close>

definition bind_err :: "error + 'a \<Rightarrow> ('a \<Rightarrow> error + 'b) \<Rightarrow> error + 'b" where
  "bind_err r f = (case r of Inl e \<Rightarrow> Inl e | Inr x \<Rightarrow> f x)"

text \<open>
  \<^verbatim>\<open>Tensor.max(dim=1)\<close> over an empty dimension raises; over a non-empty one it
  is the running maximum.
\<close>

definition reduce_max :: "real list \<Rightarrow> error + real" where
  "reduce_max xs = (case xs of [] \<Rightarrow> Inl IndexError | x # rest \<Rightarrow> Inr (fold max rest x))"

text \<open>
  Reflection padding of torch requires every pad width to be smaller than the padded
  dimension and raises otherwise; the pixel content is the kernel's.
\<close>

definition reflect_pad :: "'g kernels \<Rightarrow> tensor \<Rightarrow> int \<times> int \<times> int \<times> int \<Rightarrow> error + tensor" where
  "reflect_pad K x pad =
     (case pad of (l, r, t, b) \<Rightarrow>
        if l < int (dim_w x) \<and> r < int (dim_w x) \<and> t < int (dim_h x) \<and> b < int (dim_h x)
        then Inr (pad_reflect K x pad) else Inl RuntimeError)"

definition corner_points :: "nat \<Rightarrow> nat \<Rightarrow> vec3 list" where
  "corner_points width height =
     (let cx = (real width - 1) / 2; cy = (real height - 1) / 2
      in [(- cx, - cy, 1), (cx, - cy, 1), (cx, cy, 1), (- cx, cy, 1)])"

text \<open>Rows x and y of \<^verbatim>\<open>G_inv @ cp.t()\<close>, flattened over batch and corner.\<close>

definition corner_xs :: "(nat \<Rightarrow> mat3) \<Rightarrow> nat \<Rightarrow> nat \<Rightarrow> nat \<Rightarrow> real list" where
  "corner_xs G batch_size width height =
     concat (map (\<lambda>b. map (\<lambda>c. dot3 (fst (G b)) c) (corner_points width height)) [0..<batch_size])"

definition corner_ys :: "(nat \<Rightarrow> mat3) \<Rightarrow> nat \<Rightarrow> nat \<Rightarrow> nat \<Rightarrow> real list" where
  "corner_ys G batch_size width height =
     concat (map (\<lambda>b. map (\<lambda>c. dot3 (fst (snd (G b))) c) (corner_points width height)) [0..<batch_size])"

definition clamp_margin :: "real \<Rightarrow> real \<Rightarrow> real \<Rightarrow> int" where
  "clamp_margin m offset limit = torch_ceil (min (max (m + offset) 0) limit)"

text \<open>Lines 232 to 249: the pad list \<^verbatim>\<open>(mx0, my0, mx1, my1)\<close>.\<close>

definition calculate_padding ::
  "AugmentPipe \<Rightarrow> (nat \<Rightarrow> mat3) \<Rightarrow> nat \<Rightarrow> nat \<Rightarrow> nat \<Rightarrow> error + (int \<times> int \<times> int \<times> int)" where
  "calculate_padding pipe G batch_size width height =
     (let cx = (real width - 1) / 2; cy = (real height - 1) / 2;
          Hz_pad = length (Hz_geom pipe) div 4;
          xs = corner_xs G batch_size width height;
          ys = corner_ys G batch_size width height
      in bind_err (reduce_max (map uminus xs)) (\<lambda>nx.
         bind_err (reduce_max (map uminus ys)) (\<lambda>ny.
         bind_err (reduce_max xs) (\<lambda>qx.
         bind_err (reduce_max ys) (\<lambda>qy.
           Inr (clamp_margin nx (real (Hz_pad * 2) - cx) (real width - 1),
                clamp_margin ny (real (Hz_pad * 2) - cy) (real height - 1),
                clamp_margin qx (real (Hz_pad * 2) - cx) (real width - 1),
                clamp_margin qy (real (Hz_pad * 2) - cy) (real height - 1)))))))"

text \<open>Lines 251 to 274: pad, upsample, resample once, downsample and crop.\<close>

definition execute_geometric ::
  "'g kernels \<Rightarrow> AugmentPipe \<Rightarrow> (nat \<Rightarrow> mat3) \<Rightarrow> nat \<times> nat \<times> nat \<times> nat \<Rightarrow> tensor \<Rightarrow> error + tensor" where
  "execute_geometric K pipe G shp images =
     (case shp of (batch_size, num_channels, height, width) \<Rightarrow>
      bind_err (calculate_padding pipe G batch_size width height) (\<lambda>(mx0, my0, mx1, my1).
      bind_err (reflect_pad K images (mx0, mx1, my0, my1)) (\<lambda>images.
        let Hz_pad = length (Hz_geom pipe) div 4;
            G_inv = matmul_l3 (\<lambda>b. translate2d (real_of_int (mx0 - mx1) / 2) (real_of_int (my0 - my1) / 2))
                      (Fresh G);
            images = upsample2d K images (Hz_geom pipe) 2;
            G_inv = matmul_r3 (matmul_l3 (\<lambda>b. scale2d 2 2) G_inv) (\<lambda>b. scale2d_inv 2 2);
            G_inv = matmul_r3 (matmul_l3 (\<lambda>b. translate2d (- 0.5) (- 0.5)) G_inv)
                      (\<lambda>b. translate2d_inv (- 0.5) (- 0.5));
            shape = (batch_size, num_channels, (height + Hz_pad * 2) * 2, (width + Hz_pad * 2) * 2);
            G_inv = matmul_r3
                      (matmul_l3 (\<lambda>b. scale2d (2 / real (dim_w images)) (2 / real (dim_h images))) G_inv)
                      (\<lambda>b. scale2d_inv (2 / real ((width + Hz_pad * 2) * 2))
                                        (2 / real ((height + Hz_pad * 2) * 2)));
            grid = affine_grid K (\<lambda>b. (fst (value3 G_inv b), fst (snd (value3 G_inv b)))) shape;
            images = grid_sample K images grid
        in Inr (downsample2d K images (Hz_geom pipe) 2 (- int (Hz_pad * 2)) True))))"

text \<open>Line 230: \<^verbatim>\<open>if G_inv is not I_3\<close>.\<close>

definition geometric_pending :: "mat3 acc \<Rightarrow> bool" where
  "geometric_pending G_inv = (case G_inv of Eye_object \<Rightarrow> False | Fresh _ \<Rightarrow> True)"

definition geometric_stage ::
  "'g kernels \<Rightarrow> AugmentPipe \<Rightarrow> real option \<Rightarrow> draws \<Rightarrow> nat \<times> nat \<times> nat \<times> nat \<Rightarrow> tensor \<Rightarrow> error + tensor" where
  "geometric_stage K pipe dbg rnd shp images =
     (case shp of (batch_size, num_channels, height, width) \<Rightarrow>
        let G_inv = select_geometric K pipe dbg rnd width height
        in if geometric_pending G_inv
           then execute_geometric K pipe (value3 G_inv) shp images
           else Inr images)"

section \<open>Color transformations\<close>

fun vmap4 :: "(real \<Rightarrow> real) \<Rightarrow> vec4 \<Rightarrow> vec4" where
  "vmap4 f (a, b, c, d) = (f a, f b, f c, f d)"

fun vzip4 :: "(real \<Rightarrow> real \<Rightarrow> real) \<Rightarrow> vec4 \<Rightarrow> vec4 \<Rightarrow> vec4" where
  "vzip4 f (a, b, c, d) (x, y, z, w) = (f a x, f b y, f c z, f d w)"

fun mmap4 :: "(real \<Rightarrow> real) \<Rightarrow> mat4 \<Rightarrow> mat4" where
  "mmap4 f (r0, r1, r2, r3) = (vmap4 f r0, vmap4 f r1, vmap4 f r2, vmap4 f r3)"

fun mzip4 :: "(real \<Rightarrow> real \<Rightarrow> real) \<Rightarrow> mat4 \<Rightarrow> mat4 \<Rightarrow> mat4" where
  "mzip4 f (r0, r1, r2, r3) (s0, s1, s2, s3) =
     (vzip4 f r0 s0, vzip4 f r1 s1, vzip4 f r2 s2, vzip4 f r3 s3)"

text \<open>\<^verbatim>\<open>v.ger(w)\<close>, the outer product.\<close>

fun ger :: "vec4 \<Rightarrow> vec4 \<Rightarrow> mat4" where
  "ger (a, b, c, d) w =
     (vmap4 ((*) a) w, vmap4 ((*) b) w, vmap4 ((*) c) w, vmap4 ((*) d) w)"

text \<open>The luma axis \<^verbatim>\<open>v\<close> of line 307.\<close>

definition luma_axis :: vec4 where
  "luma_axis = (1 / sqrt 3, 1 / sqrt 3, 1 / sqrt 3, 0)"

definition sample_brightness :: "'g kernels \<Rightarrow> AugmentPipe \<Rightarrow> real option \<Rightarrow> draws \<Rightarrow> nat \<Rightarrow> real" where
  "sample_brightness K pipe dbg rnd b =
     (let v = randn rnd Bright_b [b] * brightness_std pipe;
          v = torch_where (rand rnd Bright_u [b] < brightness pipe * p pipe) v 0
      in case dbg of None \<Rightarrow> v | Some d \<Rightarrow> erfinv K (d * 2 - 1) * brightness_std pipe)"

definition sample_contrast :: "'g kernels \<Rightarrow> AugmentPipe \<Rightarrow> real option \<Rightarrow> draws \<Rightarrow> nat \<Rightarrow> real" where
  "sample_contrast K pipe dbg rnd b =
     (let c = exp2 (randn rnd Contrast_c [b] * contrast_std pipe);
          c = torch_where (rand rnd Contrast_u [b] < contrast pipe * p pipe) c 1
      in case dbg of None \<Rightarrow> c
         | Some d \<Rightarrow> exp2 (erfinv K (d * 2 - 1) * contrast_std pipe))"

definition sample_lumaflip :: "'g kernels \<Rightarrow> AugmentPipe \<Rightarrow> real option \<Rightarrow> draws \<Rightarrow> nat \<Rightarrow> real" where
  "sample_lumaflip K pipe dbg rnd b =
     (let i = torch_floor (rand rnd Luma_i [b, 0, 0] * 2);
          i = torch_where (rand rnd Luma_u [b, 0, 0] < lumaflip pipe * p pipe) i 0
      in case dbg of None \<Rightarrow> i | Some d \<Rightarrow> torch_floor (d * 2))"

definition sample_hue :: "'g kernels \<Rightarrow> AugmentPipe \<Rightarrow> real option \<Rightarrow> draws \<Rightarrow> nat \<Rightarrow> real" where
  "sample_hue K pipe dbg rnd b =
     (let theta = (rand rnd Hue_theta [b] * 2 - 1) * pi * hue_max pipe;
          theta = torch_where (rand rnd Hue_u [b] < hue pipe * p pipe) theta 0
      in case dbg of None \<Rightarrow> theta | Some d \<Rightarrow> (d * 2 - 1) * pi * hue_max pipe)"

definition sample_saturation :: "'g kernels \<Rightarrow> AugmentPipe \<Rightarrow> real option \<Rightarrow> draws \<Rightarrow> nat \<Rightarrow> real" where
  "sample_saturation K pipe dbg rnd b =
     (let s = exp2 (randn rnd Sat_s [b, 0, 0] * saturation_std pipe);
          s = torch_where (rand rnd Sat_u [b, 0, 0] < saturation pipe * p pipe) s 1
      in case dbg of None \<Rightarrow> s
         | Some d \<Rightarrow> exp2 (erfinv K (d * 2 - 1) * saturation_std pipe))"

text \<open>The five left factors of lines 284 to 336.\<close>

definition brightness_matrix :: "real \<Rightarrow> mat4" where
  "brightness_matrix b = translate3d b b b"

definition contrast_matrix :: "real \<Rightarrow> mat4" where
  "contrast_matrix c = scale3d c c c"

definition lumaflip_matrix :: "real \<Rightarrow> mat4" where
  "lumaflip_matrix i = mzip4 (-) I_4 (mmap4 (\<lambda>x. 2 * x * i) (ger luma_axis luma_axis))"

definition hue_matrix :: "real \<Rightarrow> mat4" where
  "hue_matrix theta = rotate3d luma_axis theta"

definition saturation_matrix :: "real \<Rightarrow> mat4" where
  "saturation_matrix s =
     mzip4 (+) (ger luma_axis luma_axis)
       (mmap4 (\<lambda>x. x * s) (mzip4 (-) I_4 (ger luma_axis luma_axis)))"

definition select_color ::
  "'g kernels \<Rightarrow> AugmentPipe \<Rightarrow> real option \<Rightarrow> draws \<Rightarrow> nat \<Rightarrow> mat4 acc" where
  "select_color K pipe dbg rnd num_channels =
     (let C = Eye_object;
          C = (if brightness pipe > 0
               then matmul_l4 (\<lambda>b. brightness_matrix (sample_brightness K pipe dbg rnd b)) C
               else C);
          C = (if contrast pipe > 0
               then matmul_l4 (\<lambda>b. contrast_matrix (sample_contrast K pipe dbg rnd b)) C
               else C);
          C = (if lumaflip pipe > 0
               then matmul_l4 (\<lambda>b. lumaflip_matrix (sample_lumaflip K pipe dbg rnd b)) C
               else C);
          C = (if hue pipe > 0 \<and> num_channels > 1
               then matmul_l4 (\<lambda>b. hue_matrix (sample_hue K pipe dbg rnd b)) C
               else C);
          C = (if saturation pipe > 0 \<and> num_channels > 1
               then matmul_l4 (\<lambda>b. saturation_matrix (sample_saturation K pipe dbg rnd b)) C
               else C)
      in C)"

subsection \<open>Color executor\<close>

text \<open>
  \<^verbatim>\<open>Tensor.reshape\<close> keeps the row-major element order and raises when the element
  counts differ. The rank-3 view \<^verbatim>\<open>[N, C, H * W]\<close> is held as \<^verbatim>\<open>[N, C, 1, H * W]\<close>.
\<close>

definition numel :: "tensor \<Rightarrow> nat" where
  "numel x = dim_n x * dim_c x * dim_h x * dim_w x"

definition reshape :: "tensor \<Rightarrow> nat \<times> nat \<times> nat \<times> nat \<Rightarrow> error + tensor" where
  "reshape x shp =
     (case shp of (n, c, h, w) \<Rightarrow>
        if numel x = n * c * h * w
        then Inr \<lparr>dim_n = n, dim_c = c, dim_h = h, dim_w = w,
                  px = (\<lambda>i j y z.
                     let k = ((i * c + j) * h + y) * w + z
                     in px x (k div (dim_c x * dim_h x * dim_w x))
                             ((k div (dim_h x * dim_w x)) mod dim_c x)
                             ((k div dim_w x) mod dim_h x)
                             (k mod dim_w x))\<rparr>
        else Inl RuntimeError)"

fun row4 :: "mat4 \<Rightarrow> nat \<Rightarrow> vec4" where
  "row4 (r0, r1, r2, r3) c = (if c = 0 then r0 else if c = 1 then r1 else r2)"

text \<open>\<^verbatim>\<open>C[:, :3, :3] @ images + C[:, :3, 3:]\<close> at one pixel.\<close>

definition color_rgb :: "(nat \<Rightarrow> mat4) \<Rightarrow> tensor \<Rightarrow> tensor" where
  "color_rgb C x =
     x\<lparr>px := (\<lambda>n c y z.
          case row4 (C n) c of (a, b, g, t) \<Rightarrow>
            a * px x n 0 y z + b * px x n 1 y z + g * px x n 2 y z + t)\<rparr>"

text \<open>\<^verbatim>\<open>C[:, :3, :].mean(dim=1)\<close>, then the affine map of the single channel.\<close>

definition mean_rows :: "mat4 \<Rightarrow> vec4" where
  "mean_rows M = (case M of (r0, r1, r2, r3) \<Rightarrow> vmap4 (\<lambda>x. x / 3) (vzip4 (+) (vzip4 (+) r0 r1) r2))"

definition color_luma :: "(nat \<Rightarrow> mat4) \<Rightarrow> tensor \<Rightarrow> tensor" where
  "color_luma C x =
     x\<lparr>px := (\<lambda>n c y z.
          case mean_rows (C n) of (a, b, g, t) \<Rightarrow> px x n c y z * (a + b + g) + t)\<rparr>"

definition execute_color ::
  "(nat \<Rightarrow> mat4) \<Rightarrow> nat \<times> nat \<times> nat \<times> nat \<Rightarrow> tensor \<Rightarrow> error + tensor" where
  "execute_color C shp images =
     (case shp of (batch_size, num_channels, height, width) \<Rightarrow>
      bind_err (reshape images (batch_size, num_channels, 1, height * width)) (\<lambda>images.
      bind_err (if num_channels = 3 then Inr (color_rgb C images)
                else if num_channels = 1 then Inr (color_luma C images)
                else Inl ValueError) (\<lambda>images.
        reshape images (batch_size, num_channels, height, width))))"

text \<open>Line 343: \<^verbatim>\<open>if C is not I_4\<close>.\<close>

definition color_pending :: "mat4 acc \<Rightarrow> bool" where
  "color_pending C = (case C of Eye_object \<Rightarrow> False | Fresh _ \<Rightarrow> True)"

definition color_stage ::
  "'g kernels \<Rightarrow> AugmentPipe \<Rightarrow> real option \<Rightarrow> draws \<Rightarrow> nat \<times> nat \<times> nat \<times> nat \<Rightarrow> tensor \<Rightarrow> error + tensor" where
  "color_stage K pipe dbg rnd shp images =
     (case shp of (batch_size, num_channels, height, width) \<Rightarrow>
        let C = select_color K pipe dbg rnd num_channels
        in if color_pending C then execute_color (value4 C) shp images else Inr images)"

section \<open>Image-space filtering\<close>

definition expected_power :: "real list" where
  "expected_power = [10 / 13, 1 / 13, 1 / 13, 1 / 13]"

definition sample_band ::
  "'g kernels \<Rightarrow> AugmentPipe \<Rightarrow> real option \<Rightarrow> draws \<Rightarrow> nat \<Rightarrow> real \<Rightarrow> nat \<Rightarrow> real" where
  "sample_band K pipe dbg rnd i band_strength b =
     (let t_i = exp2 (randn rnd (Filt_t i) [b] * imgfilter_std pipe);
          t_i = torch_where (rand rnd (Filt_u i) [b] < imgfilter pipe * p pipe * band_strength) t_i 1
      in case dbg of None \<Rightarrow> t_i
         | Some d \<Rightarrow> if band_strength > 0
                      then exp2 (erfinv K (d * 2 - 1) * imgfilter_std pipe) else 1)"

text \<open>
  The product \<^verbatim>\<open>expected_power * t.square()\<close> of line 383 broadcasts the four
  weights against the \<^verbatim>\<open>num_bands\<close> gains: torch accepts four gains, or a single
  gain that it repeats four times, and raises for any other count.
\<close>

definition broadcastable :: "nat \<Rightarrow> bool" where
  "broadcastable num_bands = (num_bands = length expected_power \<or> num_bands = 1)"

definition broadcast_gains :: "real list \<Rightarrow> real list" where
  "broadcast_gains t = (if length t = 1 then replicate (length expected_power) (t ! 0) else t)"

text \<open>One iteration of the loop of lines 370 to 386, for batch element \<^verbatim>\<open>b\<close>:
  the temporary gain vector with its \<^verbatim>\<open>i\<close>-th element replaced, normalised.\<close>

definition band_gain ::
  "'g kernels \<Rightarrow> AugmentPipe \<Rightarrow> real option \<Rightarrow> draws \<Rightarrow> nat \<Rightarrow> nat \<Rightarrow> real \<Rightarrow> nat \<Rightarrow> real list" where
  "band_gain K pipe dbg rnd num_bands i band_strength b =
     (let t = (replicate num_bands 1)[i := sample_band K pipe dbg rnd i band_strength b];
          power = sum_list (map2 (\<lambda>e x. e * x\<^sup>2) expected_power (broadcast_gains t))
      in map (\<lambda>x. x / sqrt power) t)"

definition global_gain ::
  "'g kernels \<Rightarrow> AugmentPipe \<Rightarrow> real option \<Rightarrow> draws \<Rightarrow> nat \<Rightarrow> nat \<Rightarrow> real list" where
  "global_gain K pipe dbg rnd num_bands b =
     fold (\<lambda>(i, band_strength) g. map2 (*) g (band_gain K pipe dbg rnd num_bands i band_strength b))
       (enumerate 0 (imgfilter_bands pipe)) (replicate num_bands 1)"

text \<open>\<^verbatim>\<open>Hz_fbank.shape[1]\<close> and one tap of \<^verbatim>\<open>g @ Hz_fbank\<close>.\<close>

definition fbank_taps :: "real list list \<Rightarrow> nat" where
  "fbank_taps fb = (case fb of [] \<Rightarrow> 0 | r # _ \<Rightarrow> length r)"

definition Hz_prime ::
  "'g kernels \<Rightarrow> AugmentPipe \<Rightarrow> real option \<Rightarrow> draws \<Rightarrow> nat \<Rightarrow> nat \<Rightarrow> real" where
  "Hz_prime K pipe dbg rnd b j =
     sum_list (map2 (\<lambda>g row. g * row ! j)
       (global_gain K pipe dbg rnd (length (Hz_fbank pipe)) b) (Hz_fbank pipe))"

text \<open>
  \<^verbatim>\<open>Tensor.reshape\<close> with one dimension given as \<^verbatim>\<open>-1\<close>: the missing
  dimension is the element count divided by the product of the given ones. torch raises
  when that product is 0 (the dimension is then ambiguous) or does not divide the count.
\<close>

definition reshape_infer :: "nat \<Rightarrow> nat \<Rightarrow> error + nat" where
  "reshape_infer count known =
     (if known = 0 \<or> \<not> known dvd count then Inl RuntimeError else Inr (count div known))"

text \<open>The weights \<^verbatim>\<open>Hz_prime.unsqueeze(2)\<close> of shape \<^verbatim>\<open>[N * C, 1, 1, taps]\<close>
  and \<^verbatim>\<open>Hz_prime.unsqueeze(3)\<close> of shape \<^verbatim>\<open>[N * C, 1, taps, 1]\<close>, where
  \<^verbatim>\<open>taps\<close> is the dimension inferred by the reshape of line 394.\<close>

definition weight_horizontal ::
  "'g kernels \<Rightarrow> AugmentPipe \<Rightarrow> real option \<Rightarrow> draws \<Rightarrow> nat \<Rightarrow> nat \<Rightarrow> nat \<Rightarrow> tensor" where
  "weight_horizontal K pipe dbg rnd batch_size num_channels taps =
     \<lparr>dim_n = batch_size * num_channels, dim_c = 1, dim_h = 1, dim_w = taps,
      px = (\<lambda>k c y j. Hz_prime K pipe dbg rnd (k div num_channels) j)\<rparr>"

definition weight_vertical ::
  "'g kernels \<Rightarrow> AugmentPipe \<Rightarrow> real option \<Rightarrow> draws \<Rightarrow> nat \<Rightarrow> nat \<Rightarrow> nat \<Rightarrow> tensor" where
  "weight_vertical K pipe dbg rnd batch_size num_channels taps =
     \<lparr>dim_n = batch_size * num_channels, dim_c = 1, dim_h = taps, dim_w = 1,
      px = (\<lambda>k c j z. Hz_prime K pipe dbg rnd (k div num_channels) j)\<rparr>"

text \<open>
  Lines 360 to 406. The assertion of line 362 comes first; the loop over the band strengths
  raises in its first iteration when the gains cannot be broadcast; the repeated
  \<^verbatim>\<open>[N, C, taps]\<close> filter is reshaped to \<^verbatim>\<open>[N * C, 1, -1]\<close>, which raises
  for an empty batch; then the batch is reshaped, padded, convolved along each axis and
  reshaped back.
\<close>

definition filter_stage ::
  "'g kernels \<Rightarrow> AugmentPipe \<Rightarrow> real option \<Rightarrow> draws \<Rightarrow> nat \<times> nat \<times> nat \<times> nat \<Rightarrow> tensor \<Rightarrow> error + tensor" where
  "filter_stage K pipe dbg rnd shp images =
     (case shp of (batch_size, num_channels, height, width) \<Rightarrow>
      if imgfilter pipe > 0 then
        let num_bands = length (Hz_fbank pipe) in
        if length (imgfilter_bands pipe) \<noteq> num_bands then Inl AssertionError
        else if imgfilter_bands pipe \<noteq> [] \<and> \<not> broadcastable num_bands then Inl RuntimeError
        else
          bind_err (reshape_infer (batch_size * num_channels * fbank_taps (Hz_fbank pipe))
                      (batch_size * num_channels * 1)) (\<lambda>taps.
          let q = int (fbank_taps (Hz_fbank pipe) div 2) in
          bind_err (reshape images (1, batch_size * num_channels, height, width)) (\<lambda>images.
          bind_err (reflect_pad K images (q, q, q, q)) (\<lambda>images.
            let images = conv2d K images
                           (weight_horizontal K pipe dbg rnd batch_size num_channels taps)
                           (batch_size * num_channels);
                images = conv2d K images
                           (weight_vertical K pipe dbg rnd batch_size num_channels taps)
                           (batch_size * num_channels)
            in reshape images (batch_size, num_channels, height, width))))
      else Inr images)"

section \<open>Image-space corruptions\<close>

definition sample_noise :: "'g kernels \<Rightarrow> AugmentPipe \<Rightarrow> real option \<Rightarrow> draws \<Rightarrow> nat \<Rightarrow> real" where
  "sample_noise K pipe dbg rnd b =
     (let sigma = \<bar>randn rnd Noise_sigma [b, 0, 0, 0]\<bar> * noise_std pipe;
          sigma = torch_where (rand rnd Noise_u [b, 0, 0, 0] < noise pipe * p pipe) sigma 0
      in case dbg of None \<Rightarrow> sigma | Some d \<Rightarrow> erfinv K d * noise_std pipe)"

definition noise_stage :: "'g kernels \<Rightarrow> AugmentPipe \<Rightarrow> real option \<Rightarrow> draws \<Rightarrow> tensor \<Rightarrow> tensor" where
  "noise_stage K pipe dbg rnd images =
     (if noise pipe > 0
      then images\<lparr>px := (\<lambda>n c y z.
             px images n c y z + randn rnd Noise_n [n, c, y, z] * sample_noise K pipe dbg rnd n)\<rparr>
      else images)"

definition sample_cutout_size :: "AugmentPipe \<Rightarrow> real option \<Rightarrow> draws \<Rightarrow> nat \<Rightarrow> nat \<Rightarrow> real" where
  "sample_cutout_size pipe dbg rnd b k =
     (let size = cutout_size pipe;
          size = torch_where (rand rnd Cut_u [b, 0, 0, 0, 0] < cutout pipe * p pipe) size 0
      in case dbg of None \<Rightarrow> size | Some d \<Rightarrow> cutout_size pipe)"

definition sample_cutout_center :: "AugmentPipe \<Rightarrow> real option \<Rightarrow> draws \<Rightarrow> nat \<Rightarrow> nat \<Rightarrow> real" where
  "sample_cutout_center pipe dbg rnd b k =
     (let center = rand rnd Cut_center [b, k, 0, 0, 0]
      in case dbg of None \<Rightarrow> center | Some d \<Rightarrow> d)"

definition mask_x :: "AugmentPipe \<Rightarrow> real option \<Rightarrow> draws \<Rightarrow> nat \<Rightarrow> nat \<Rightarrow> nat \<Rightarrow> bool" where
  "mask_x pipe dbg rnd width b coord_x =
     (\<bar>(real coord_x + 0.5) / real width - sample_cutout_center pipe dbg rnd b 0\<bar>
        \<ge> sample_cutout_size pipe dbg rnd b 0 / 2)"

definition mask_y :: "AugmentPipe \<Rightarrow> real option \<Rightarrow> draws \<Rightarrow> nat \<Rightarrow> nat \<Rightarrow> nat \<Rightarrow> bool" where
  "mask_y pipe dbg rnd height b coord_y =
     (\<bar>(real coord_y + 0.5) / real height - sample_cutout_center pipe dbg rnd b 1\<bar>
        \<ge> sample_cutout_size pipe dbg rnd b 1 / 2)"

text \<open>\<^verbatim>\<open>torch.logical_or(mask_x, mask_y).to(torch.float32)\<close>.\<close>

definition cutout_mask ::
  "AugmentPipe \<Rightarrow> real option \<Rightarrow> draws \<Rightarrow> nat \<Rightarrow> nat \<Rightarrow> nat \<Rightarrow> nat \<Rightarrow> nat \<Rightarrow> real" where
  "cutout_mask pipe dbg rnd height width b coord_y coord_x =
     (if mask_x pipe dbg rnd width b coord_x \<or> mask_y pipe dbg rnd height b coord_y then 1 else 0)"

definition cutout_stage ::
  "AugmentPipe \<Rightarrow> real option \<Rightarrow> draws \<Rightarrow> nat \<times> nat \<times> nat \<times> nat \<Rightarrow> tensor \<Rightarrow> tensor" where
  "cutout_stage pipe dbg rnd shp images =
     (case shp of (batch_size, num_channels, height, width) \<Rightarrow>
      if cutout pipe > 0
      then images\<lparr>px := (\<lambda>n c y z. px images n c y z * cutout_mask pipe dbg rnd height width n y z)\<rparr>
      else images)"

section \<open>The pipeline\<close>

text \<open>\<^verbatim>\<open>AugmentPipe.forward\<close>: the shape is read once from the input, and the
  stages run in source order; an exception of any stage ends the call.\<close>

definition forward ::
  "'g kernels \<Rightarrow> AugmentPipe \<Rightarrow> tensor \<Rightarrow> real option \<Rightarrow> draws \<Rightarrow> error + tensor" where
  "forward K pipe images debug_percentile rnd =
     (let shp = (dim_n images, dim_c images, dim_h images, dim_w images) in
      bind_err (geometric_stage K pipe debug_percentile rnd shp images) (\<lambda>images.
      bind_err (color_stage K pipe debug_percentile rnd shp images) (\<lambda>images.
      bind_err (filter_stage K pipe debug_percentile rnd shp images) (\<lambda>images.
        Inr (cutout_stage pipe debug_percentile rnd shp
               (noise_stage K pipe debug_percentile rnd images))))))"

section \<open>Output sizes of the external kernels\<close>

definition shape_of :: "tensor \<Rightarrow> nat \<times> nat \<times> nat \<times> nat" where
  "shape_of x = (dim_n x, dim_c x, dim_h x, dim_w x)"

text \<open>
  The documented output size of \<^verbatim>\<open>upfirdn2d\<close> along one axis: upsample by
  \<^verbatim>\<open>up\<close>, pad by \<^verbatim>\<open>pad0\<close> and \<^verbatim>\<open>pad1\<close>, filter with
  \<^verbatim>\<open>fw\<close> taps, keep every \<^verbatim>\<open>down\<close>-th sample; and the paddings that
  \<^verbatim>\<open>upsample2d\<close> and \<^verbatim>\<open>downsample2d\<close> derive from their
  \<^verbatim>\<open>padding\<close> argument.
\<close>

definition upfirdn_size :: "nat \<Rightarrow> nat \<Rightarrow> int \<Rightarrow> int \<Rightarrow> nat \<Rightarrow> nat \<Rightarrow> nat" where
  "upfirdn_size n up pad0 pad1 fw down =
     nat ((int (n * up) + pad0 + pad1 - int fw) div int down + 1)"

definition upsample_size :: "nat \<Rightarrow> nat \<Rightarrow> nat \<Rightarrow> nat" where
  "upsample_size n fw up =
     upfirdn_size n up ((int fw + int up - 1) div 2) ((int fw - int up) div 2) fw 1"

definition downsample_size :: "nat \<Rightarrow> nat \<Rightarrow> nat \<Rightarrow> int \<Rightarrow> nat" where
  "downsample_size n fw down pad =
     upfirdn_size n 1 (pad + (int fw - int down + 1) div 2) (pad + (int fw - int down) div 2) fw down"

text \<open>
  The shape contract assumed of the kernels: reflection padding grows each side by its pad
  width, the up- and downsampling follow \<^verbatim>\<open>upfirdn2d\<close>, \<^verbatim>\<open>grid_sample\<close>
  returns the spatial size the grid was built for, and the convolution (no padding, stride
  1, one output channel per filter) shrinks each axis by the kernel extent minus one.
\<close>

definition kernel_shapes :: "'g kernels \<Rightarrow> bool" where
  "kernel_shapes K =
     ((\<forall>x l r t b. shape_of (pad_reflect K x (l, r, t, b)) =
          (dim_n x, dim_c x, nat (int (dim_h x) + t + b), nat (int (dim_w x) + l + r))) \<and>
      (\<forall>x f up. shape_of (upsample2d K x f up) =
          (dim_n x, dim_c x, upsample_size (dim_h x) (length f) up,
           upsample_size (dim_w x) (length f) up)) \<and>
      (\<forall>x f down pad flip. shape_of (downsample2d K x f down pad flip) =
          (dim_n x, dim_c x, downsample_size (dim_h x) (length f) down pad,
           downsample_size (dim_w x) (length f) down pad)) \<and>
      (\<forall>x theta n c h w. shape_of (grid_sample K x (affine_grid K theta (n, c, h, w))) =
          (dim_n x, dim_c x, h, w)) \<and>
      (\<forall>x w groups. shape_of (conv2d K x w groups) =
          (dim_n x, dim_n w, dim_h x + 1 - dim_h w, dim_w x + 1 - dim_w w)))"

section \<open>Construction of the filter bank\<close>

text \<open>
  Lines 105 to 118 of \<^verbatim>\<open>__init__\<close>. \<^verbatim>\<open>np.convolve\<close> is the full discrete
  convolution and raises on an empty operand; \<^verbatim>\<open>scipy.signal.convolve\<close> with the
  one-row kernel \<^verbatim>\<open>[Hz_lo2]\<close> convolves every row.
\<close>

definition convolve_full :: "real list \<Rightarrow> real list \<Rightarrow> real list" where
  "convolve_full a v =
     map (\<lambda>n. sum_list (map (\<lambda>m. if m \<le> n \<and> n - m < length v then a ! m * v ! (n - m) else 0)
                             [0..<length a]))
       [0..<length a + length v - 1]"

definition np_convolve :: "real list \<Rightarrow> real list \<Rightarrow> error + real list" where
  "np_convolve a v = (if a = [] \<or> v = [] then Inl ValueError else Inr (convolve_full a v))"

text \<open>\<^verbatim>\<open>np.dstack([row, zeros]).reshape(-1)[:-1]\<close>: a zero after every entry but the
  last.\<close>

definition zero_stuff :: "real list \<Rightarrow> real list" where
  "zero_stuff row = butlast (concat (map (\<lambda>x. [x, 0]) row))"

text \<open>\<^verbatim>\<open>row[start:stop] += vals\<close>.\<close>

definition add_slice :: "real list \<Rightarrow> nat \<Rightarrow> nat \<Rightarrow> real list \<Rightarrow> real list" where
  "add_slice row start stop vals =
     map (\<lambda>j. if start \<le> j \<and> j < stop then row ! j + vals ! (j - start) else row ! j)
       [0..<length row]"

text \<open>One iteration of the loop of line 111, for row index \<^verbatim>\<open>i\<close>. The band-pass
  taps are added in the middle of row \<^verbatim>\<open>i\<close>; the row is never shorter than they are.\<close>

definition fbank_step :: "real list \<Rightarrow> real list \<Rightarrow> nat \<Rightarrow> real list list \<Rightarrow> real list list" where
  "fbank_step Hz_lo2 Hz_hi2 i fbank =
     (let fbank = map zero_stuff fbank;
          fbank = map (\<lambda>row. convolve_full row Hz_lo2) fbank;
          width = fbank_taps fbank
      in fbank[i := add_slice (fbank ! i) ((width - length Hz_hi2) div 2)
                         ((width + length Hz_hi2) div 2) Hz_hi2])"

text \<open>The bank built from the table \<^verbatim>\<open>wavelets['sym2']\<close>, starting from
  \<^verbatim>\<open>np.eye(4, 1)\<close>; the table itself is not in the source file and is a parameter.\<close>

definition construct_fbank :: "real list \<Rightarrow> error + real list list" where
  "construct_fbank sym2 =
     (let Hz_lo = sym2;
          Hz_hi = map (\<lambda>i. Hz_lo ! i * (- 1) ^ i) [0..<length Hz_lo]
      in bind_err (np_convolve Hz_lo (rev Hz_lo)) (\<lambda>lo2.
         bind_err (np_convolve Hz_hi (rev Hz_hi)) (\<lambda>hi2.
           let Hz_lo2 = map (\<lambda>x. x / 2) lo2;
               Hz_hi2 = map (\<lambda>x. x / 2) hi2;
               fbank = [[1], [0], [0], [0]]
           in Inr (fold (fbank_step Hz_lo2 Hz_hi2) [1..<length fbank] fbank))))"

text \<open>A bank of four rows of one length.\<close>

definition uniform_rows :: "real list list \<Rightarrow> nat \<Rightarrow> bool" where
  "uniform_rows fb w = (length fb = 4 \<and> list_all (\<lambda>row. length row = w) fb)"

section \<open>Construction defaults and reference inputs\<close>

text \<open>The attributes that \<^verbatim>\<open>__init__\<close> sets from its keyword defaults, with the
  strength buffer at 1; the two filter buffers are arguments.\<close>

definition AugmentPipe_init :: "real list \<Rightarrow> real list list \<Rightarrow> AugmentPipe" where
  "AugmentPipe_init geom fbank =
     \<lparr>p = 1, xflip = 0, rotate90 = 0, xint = 0, xint_max = 0.125,
      scale = 0, rotate = 0, aniso = 0, xfrac = 0,
      scale_std = 0.2, rotate_max = 1, aniso_std = 0.2, xfrac_std = 0.125,
      brightness = 0, contrast = 0, lumaflip = 0, hue = 0, saturation = 0,
      brightness_std = 0.2, contrast_std = 0.5, hue_max = 1, saturation_std = 1,
      imgfilter = 0, imgfilter_bands = [1, 1, 1, 1], imgfilter_std = 1,
      noise = 0, cutout = 0, noise_std = 0.1, cutout_size = 0.5,
      Hz_geom = geom, Hz_fbank = fbank\<rparr>"

text \<open>
  \<^verbatim>\<open>AugmentPipe()\<close>: the geometric low-pass buffer is what
  \<^verbatim>\<open>upfirdn2d.setup_filter(wavelets['sym6'])\<close> returned, the filter bank is built
  from \<^verbatim>\<open>wavelets['sym2']\<close>.
\<close>

definition AugmentPipe_new :: "real list \<Rightarrow> real list \<Rightarrow> error + AugmentPipe" where
  "AugmentPipe_new geom sym2 =
     bind_err (construct_fbank sym2) (\<lambda>fbank. Inr (AugmentPipe_init geom fbank))"

text \<open>
  The coefficient tables are not part of the source file. Concrete runs use a 12-tap
  low-pass buffer and the bank built from a 4-tap table, the lengths of the
  \<^verbatim>\<open>sym6\<close> and \<^verbatim>\<open>sym2\<close> tables; the coefficient values are stand-ins.
\<close>

definition example_geom :: "real list" where
  "example_geom = replicate 12 (1 / 12)"

definition example_sym2 :: "real list" where
  "example_sym2 = [1 / 8, 3 / 8, 3 / 8, 1 / 8]"

definition example_fbank :: "real list list" where
  "example_fbank = (case construct_fbank example_sym2 of Inl e \<Rightarrow> [] | Inr fbank \<Rightarrow> fbank)"

definition default_pipe :: AugmentPipe where
  "default_pipe = AugmentPipe_init example_geom example_fbank"

text \<open>
  A reference instance of the external kernels, used to run the model on concrete inputs.
  It produces the output shapes of the real kernels; its pixel content (nearest-neighbour
  copies) and its \<^verbatim>\<open>erfinv\<close> (the identity, which like \<^verbatim>\<open>erfinv\<close> is odd,
  increasing and zero only at zero) are stand-ins.
\<close>

definition reflect_index :: "int \<Rightarrow> nat \<Rightarrow> nat" where
  "reflect_index i n =
     (if i < 0 then nat (- i) else if int n \<le> i then nat (2 * (int n - 1) - i) else nat i)"

definition reference_kernels :: "(nat \<times> nat \<times> nat \<times> nat) kernels" where
  "reference_kernels =
     \<lparr>erfinv = (\<lambda>x. x),
      pad_reflect = (\<lambda>x (l, r, t, b).
         x\<lparr>dim_h := nat (int (dim_h x) + t + b), dim_w := nat (int (dim_w x) + l + r),
           px := (\<lambda>n c y z. px x n c (reflect_index (int y - t) (dim_h x))
                                       (reflect_index (int z - l) (dim_w x)))\<rparr>),
      upsample2d = (\<lambda>x f up.
         x\<lparr>dim_h := upsample_size (dim_h x) (length f) up,
           dim_w := upsample_size (dim_w x) (length f) up,
           px := (\<lambda>n c y z. px x n c (y div up) (z div up))\<rparr>),
      downsample2d = (\<lambda>x f down pad flip.
         x\<lparr>dim_h := downsample_size (dim_h x) (length f) down pad,
           dim_w := downsample_size (dim_w x) (length f) down pad,
           px := (\<lambda>n c y z. px x n c (nat (int (y * down) - pad)) (nat (int (z * down) - pad)))\<rparr>),
      affine_grid = (\<lambda>theta shape. shape),
      grid_sample = (\<lambda>x (n, c, h, w). x\<lparr>dim_h := h, dim_w := w\<rparr>),
      conv2d = (\<lambda>x w groups.
         x\<lparr>dim_c := dim_n w, dim_h := dim_h x + 1 - dim_h w, dim_w := dim_w x + 1 - dim_w w\<rparr>)\<rparr>"

definition fixed_draws :: "real \<Rightarrow> real \<Rightarrow> draws" where
  "fixed_draws u g = \<lparr>rand = (\<lambda>s idx. u), randn = (\<lambda>s idx. g)\<rparr>"

definition ramp_image :: "nat \<Rightarrow> nat \<Rightarrow> nat \<Rightarrow> nat \<Rightarrow> tensor" where
  "ramp_image n c h w =
     \<lparr>dim_n = n, dim_c = c, dim_h = h, dim_w = w,
      px = (\<lambda>i j y z. real (i + j + y + z))\<rparr>"

section \<open>Predicates on configurations\<close>

text \<open>All fifteen probability multipliers of \<^verbatim>\<open>__init__\<close> are zero.\<close>

definition all_multipliers_zero :: "AugmentPipe \<Rightarrow> bool" where
  "all_multipliers_zero pipe =
     (xflip pipe = 0 \<and> rotate90 pipe = 0 \<and> xint pipe = 0 \<and> scale pipe = 0 \<and>
      rotate pipe = 0 \<and> aniso pipe = 0 \<and> xfrac pipe = 0 \<and> brightness pipe = 0 \<and>
      contrast pipe = 0 \<and> lumaflip pipe = 0 \<and> hue pipe = 0 \<and> saturation pipe = 0 \<and>
      imgfilter pipe = 0 \<and> noise pipe = 0 \<and> cutout pipe = 0)"

text \<open>Some geometric augmentation has a positive multiplier.\<close>

definition geometric_enabled :: "AugmentPipe \<Rightarrow> bool" where
  "geometric_enabled pipe =
     (xflip pipe > 0 \<or> rotate90 pipe > 0 \<or> xint pipe > 0 \<or> scale pipe > 0 \<or>
      rotate pipe > 0 \<or> aniso pipe > 0 \<or> xfrac pipe > 0)"

text \<open>Some color augmentation is enabled for the given channel count (lines 285 to 328).\<close>

definition color_enabled :: "AugmentPipe \<Rightarrow> nat \<Rightarrow> bool" where
  "color_enabled pipe num_channels =
     (brightness pipe > 0 \<or> contrast pipe > 0 \<or> lumaflip pipe > 0 \<or>
      (hue pipe > 0 \<and> num_channels > 1) \<or> (saturation pipe > 0 \<and> num_channels > 1))"

text \<open>Concrete configurations and draws used to run the model.\<close>

definition xflip_half :: AugmentPipe where
  "xflip_half = default_pipe\<lparr>xflip := 1 / 2\<rparr>"

definition blit_draws :: draws where
  "blit_draws =
     \<lparr>rand = (\<lambda>s idx. if s = Xflip_i then 3 / 4 else if s = Rot90_i then 1 / 2
                       else if s = Xint_t then 3 / 4 else 1 / 4),
      randn = (\<lambda>s idx. 0)\<rparr>"

definition blit_pipe :: AugmentPipe where
  "blit_pipe = default_pipe
                 \<lparr>xflip := 1, rotate90 := 1, xint := 1\<rparr>"

definition saturated_pipe :: AugmentPipe where
  "saturated_pipe = default_pipe
     \<lparr>p := 3, xflip := 1 / 2, rotate := 1 / 2, noise := 1\<rparr>"


definition cutout_pipe :: AugmentPipe where
  "cutout_pipe = default_pipe\<lparr>cutout := 1\<rparr>"

definition ones_image :: "nat \<Rightarrow> nat \<Rightarrow> nat \<Rightarrow> nat \<Rightarrow> tensor" where
  "ones_image n c h w =
     \<lparr>dim_n = n, dim_c = c, dim_h = h, dim_w = w, px = (\<lambda>i j y z. 1)\<rparr>"

definition noisy_pipe :: AugmentPipe where
  "noisy_pipe = default_pipe\<lparr>noise := 1\<rparr>"

definition debug_pipe :: AugmentPipe where
  "debug_pipe = default_pipe
      \<lparr>brightness := 1, cutout := 1\<rparr>"

text \<open>
  The image filter can run on a batch of the given height and width: there is one band
  strength per filter-bank row, the row count can be broadcast against the four power
  weights (\<^verbatim>\<open>__init__\<close> builds four rows), the number of taps is odd, and the
  reflection pad is narrower than the image.
\<close>

definition filter_ready :: "AugmentPipe \<Rightarrow> nat \<Rightarrow> nat \<Rightarrow> bool" where
  "filter_ready pipe height width =
     (length (imgfilter_bands pipe) = length (Hz_fbank pipe) \<and>
      broadcastable (length (Hz_fbank pipe)) \<and>
      odd (fbank_taps (Hz_fbank pipe)) \<and>
      fbank_taps (Hz_fbank pipe) div 2 < height \<and>
      fbank_taps (Hz_fbank pipe) div 2 < width)"

definition full_pipe :: AugmentPipe where
  "full_pipe = default_pipe
     \<lparr>xflip := 1, scale := 1, brightness := 1, imgfilter := 1, noise := 1, cutout := 1\<rparr>"

definition short_bands_pipe :: AugmentPipe where
  "short_bands_pipe = default_pipe
     \<lparr>imgfilter := 1, imgfilter_bands := [1, 1, 1]\<rparr>"

definition filter_pipe :: AugmentPipe where
  "filter_pipe = default_pipe
     \<lparr>imgfilter := 1\<rparr>"

section \<open>Shape of the constructed filter bank\<close>

lemma length_convolve_full: "length (convolve_full a v) = length a + length v - 1"
  by (simp add: convolve_full_def)

lemma length_zero_stuff: "length (zero_stuff row) = 2 * length row - 1"
  by (induction row) (simp_all add: zero_stuff_def)

lemma length_add_slice: "length (add_slice row start stop vals) = length row"
  by (simp add: add_slice_def)

lemma fbank_taps_uniform: "uniform_rows fb w \<Longrightarrow> fbank_taps fb = w"
  by (cases fb) (simp_all add: uniform_rows_def fbank_taps_def)

lemma uniform_rows_update:
  "uniform_rows fb w \<Longrightarrow> length row = w \<Longrightarrow> uniform_rows (fb[i := row]) w"
  by (auto simp add: uniform_rows_def list_all_iff dest: set_update_subset_insert [THEN subsetD])

lemma uniform_rows_map:
  "uniform_rows fb w \<Longrightarrow> (\<And>row. length row = w \<Longrightarrow> length (f row) = w') \<Longrightarrow>
   uniform_rows (map f fb) w'"
  by (auto simp add: uniform_rows_def list_all_iff)

lemma fbank_step_rows:
  assumes "uniform_rows fb w"
  shows "uniform_rows (fbank_step lo2 hi2 i fb) (2 * w - 1 + length lo2 - 1)"
proof -
  have a: "uniform_rows (map zero_stuff fb) (2 * w - 1)"
    using assms by (rule uniform_rows_map) (simp add: length_zero_stuff)
  have b: "uniform_rows (map (\<lambda>row. convolve_full row lo2) (map zero_stuff fb))
      (2 * w - 1 + length lo2 - 1)"
    using a by (rule uniform_rows_map) (simp add: length_convolve_full)
  have c: "length (map (\<lambda>row. convolve_full row lo2) (map zero_stuff fb) ! i)
      = 2 * w - 1 + length lo2 - 1" if "i < 4"
    using b that by (simp add: uniform_rows_def list_all_length)
  show ?thesis
  proof (cases "i < 4")
    case True
    then show ?thesis
      unfolding fbank_step_def Let_def
      by (intro uniform_rows_update [OF b]) (simp only: length_add_slice c)
  next
    case False
    then have "i \<ge> length (map (\<lambda>row. convolve_full row lo2) (map zero_stuff fb))"
      using assms by (simp add: uniform_rows_def)
    then show ?thesis
      unfolding fbank_step_def Let_def using b by (simp only: list_update_beyond)
  qed
qed

lemma loop_range: "[1..<length [[1], [0], [0], [0::real]]] = [1, 2, 3]"
  by (simp add: upt_conv_Cons)

lemma construct_fbank_rows:
  assumes "sym2 \<noteq> []"
  shows "\<exists>fb. construct_fbank sym2 = Inr fb \<and> uniform_rows fb (14 * length sym2 - 13)"
proof -
  define L where "L = length sym2"
  have L: "1 \<le> L"
    using assms by (cases sym2) (simp_all add: L_def)
  define hi where "hi = map (\<lambda>i. sym2 ! i * (- 1) ^ i) [0..<length sym2]"
  define lo2 where "lo2 = map (\<lambda>x. x / 2) (convolve_full sym2 (rev sym2))"
  define hi2 where "hi2 = map (\<lambda>x. x / 2) (convolve_full hi (rev hi))"
  have hi_ne: "hi \<noteq> []"
    using assms by (simp add: hi_def)
  have len_lo2: "length lo2 = 2 * L - 1"
    by (simp add: lo2_def length_convolve_full L_def)
  have r0: "uniform_rows [[1], [0], [0], [0]] 1"
    by (simp add: uniform_rows_def)
  have r1: "uniform_rows (fbank_step lo2 hi2 1 [[1], [0], [0], [0]]) (2 * L - 1)"
    using fbank_step_rows [OF r0, of lo2 hi2 1] L by (simp add: len_lo2)
  have r2: "uniform_rows (fbank_step lo2 hi2 2 (fbank_step lo2 hi2 1 [[1], [0], [0], [0]]))
      (6 * L - 5)"
  proof -
    have "2 * (2 * L - 1) - 1 + length lo2 - 1 = 6 * L - 5"
      using L by (simp add: len_lo2)
    then show ?thesis
      using fbank_step_rows [OF r1, of lo2 hi2 2] by simp
  qed
  have r3: "uniform_rows (fbank_step lo2 hi2 3
      (fbank_step lo2 hi2 2 (fbank_step lo2 hi2 1 [[1], [0], [0], [0]]))) (14 * L - 13)"
  proof -
    have "2 * (6 * L - 5) - 1 + length lo2 - 1 = 14 * L - 13"
      using L by (simp add: len_lo2)
    then show ?thesis
      using fbank_step_rows [OF r2, of lo2 hi2 3] by simp
  qed
  have "construct_fbank sym2 = Inr (fbank_step lo2 hi2 3
      (fbank_step lo2 hi2 2 (fbank_step lo2 hi2 1 [[1], [0], [0], [0]])))"
    unfolding construct_fbank_def Let_def loop_range
    using assms hi_ne
    by (simp add: np_convolve_def bind_err_def
        hi_def [symmetric] lo2_def [symmetric] hi2_def [symmetric])
  then show ?thesis
    using r3 by (simp add: L_def)
qed

text \<open>For a non-empty table the constructor succeeds with the bank of line 117.\<close>

lemma AugmentPipe_new_fbank:
  assumes "sym2 \<noteq> []"
  shows "\<exists>pipe. AugmentPipe_new geom sym2 = Inr pipe \<and> Hz_geom pipe = geom \<and>
     uniform_rows (Hz_fbank pipe) (14 * length sym2 - 13)"
  using construct_fbank_rows [OF assms]
  by (auto simp add: AugmentPipe_new_def bind_err_def AugmentPipe_init_def)

lemma example_fbank_uniform: "uniform_rows example_fbank 43"
  using construct_fbank_rows [of example_sym2]
  by (auto simp add: example_fbank_def example_sym2_def)

lemma example_fbank_rows: "length example_fbank = 4"
  using example_fbank_uniform by (simp add: uniform_rows_def)

lemma example_fbank_taps: "fbank_taps example_fbank = 43"
  using example_fbank_uniform by (rule fbank_taps_uniform)

lemma default_pipe_constructed: "AugmentPipe_new example_geom example_sym2 = Inr default_pipe"
  using construct_fbank_rows [of example_sym2]
  by (auto simp add: AugmentPipe_new_def bind_err_def default_pipe_def example_fbank_def
      example_sym2_def)

section \<open>Identity of the disabled pipeline\<close>

lemma select_geometric_off:
  "xflip pipe \<le> 0 \<Longrightarrow> rotate90 pipe \<le> 0 \<Longrightarrow> xint pipe \<le> 0 \<Longrightarrow> scale pipe \<le> 0 \<Longrightarrow>
   rotate pipe \<le> 0 \<Longrightarrow> aniso pipe \<le> 0 \<Longrightarrow> xfrac pipe \<le> 0 \<Longrightarrow>
   select_geometric K pipe dbg rnd w h = Eye_object"
  by (simp add: select_geometric_def)

lemma select_color_off:
  "brightness pipe \<le> 0 \<Longrightarrow> contrast pipe \<le> 0 \<Longrightarrow> lumaflip pipe \<le> 0 \<Longrightarrow>
   hue pipe \<le> 0 \<Longrightarrow> saturation pipe \<le> 0 \<Longrightarrow>
   select_color K pipe dbg rnd c = Eye_object"
  by (simp add: select_color_def)

text \<open>
  Claim C1. With every probability multiplier equal to 0 (the constructor has fifteen of
  them: seven geometric, five color, image filtering, noise and cutout), \<^verbatim>\<open>forward\<close>
  returns the input batch itself, for any shape, content, strength, debug percentile,
  random draws and kernels: both accumulated matrices stay the identity objects and every
  stage is skipped.
\<close>

theorem identity_property:
  assumes "all_multipliers_zero pipe"
  shows "forward K pipe images dbg rnd = Inr images"
  using assms
  by (simp add: all_multipliers_zero_def forward_def geometric_stage_def color_stage_def
      filter_stage_def noise_stage_def cutout_stage_def select_geometric_off select_color_off
      geometric_pending_def color_pending_def bind_err_def)

theorem identity_property_witness:
  "all_multipliers_zero default_pipe \<and>
   forward reference_kernels default_pipe
     (ramp_image 2 3 4 4) None (fixed_draws (1 / 2) 1) = Inr (ramp_image 2 3 4 4)"
  using identity_property [of "default_pipe"
      reference_kernels "ramp_image 2 3 4 4" None "fixed_draws (1 / 2) 1"]
  by (simp add: all_multipliers_zero_def default_pipe_def AugmentPipe_init_def)

section \<open>When the geometric executor runs\<close>

lemma value3_Fresh: "value3 (Fresh f) = f"
  by (rule ext) (simp add: value3_def)

lemma value4_Fresh: "value4 (Fresh f) = f"
  by (rule ext) (simp add: value4_def)

lemma geometric_pending_iff:
  "geometric_pending (select_geometric K pipe dbg rnd w h) = geometric_enabled pipe"
  by (simp add: select_geometric_def geometric_pending_def geometric_enabled_def matmul_r3_def Let_def)

text \<open>
  Claim C3, as the code has it. The test \<^verbatim>\<open>G_inv is not I_3\<close> is on the object, not
  on its value: the executor is pending exactly when some geometric multiplier is positive.
  With all seven geometric multipliers at most 0, \<^verbatim>\<open>G_inv\<close> is still the
  \<^verbatim>\<open>I_3\<close> object, all five steps are skipped and the batch leaves the stage
  unchanged; with any of them positive the executor runs on the accumulated matrix, whatever
  the gates selected.
\<close>

theorem geometric_passthrough:
  "geometric_pending (select_geometric K pipe dbg rnd (dim_w images) (dim_h images))
     = geometric_enabled pipe \<and>
   (if geometric_enabled pipe
    then geometric_stage K pipe dbg rnd (dim_n images, dim_c images, dim_h images, dim_w images) images
         = execute_geometric K pipe (value3 (select_geometric K pipe dbg rnd (dim_w images) (dim_h images)))
             (dim_n images, dim_c images, dim_h images, dim_w images) images
    else select_geometric K pipe dbg rnd (dim_w images) (dim_h images) = Eye_object \<and>
         geometric_stage K pipe dbg rnd (dim_n images, dim_c images, dim_h images, dim_w images) images
         = Inr images)"
  by (simp add: geometric_pending_iff geometric_stage_def)
     (simp add: geometric_enabled_def select_geometric_off)

theorem geometric_passthrough_witness:
  "geometric_stage reference_kernels default_pipe
     None (fixed_draws (3 / 4) 1) (2, 3, 4, 4) (ramp_image 2 3 4 4) = Inr (ramp_image 2 3 4 4)"
  using geometric_passthrough [of reference_kernels
      "default_pipe" None "fixed_draws (3 / 4) 1"
      "ramp_image 2 3 4 4"]
  by (simp add: geometric_enabled_def default_pipe_def AugmentPipe_init_def ramp_image_def)

text \<open>
  The claim as stated fails: with \<^verbatim>\<open>xflip = 0.5\<close>, \<^verbatim>\<open>p = 1\<close> and gate draws
  of 0.75, the only enabled gate selects its identity value for both batch elements and
  \<^verbatim>\<open>G_inv\<close> has the identity value, yet the executor is pending and the stage is the
  pad, upsample, resample and downsample sequence run on the identity matrix.
\<close>

theorem geometric_passthrough_counterexample:
  "sample_xflip reference_kernels xflip_half None (fixed_draws (3 / 4) 1) 0 = 0 \<and>
   sample_xflip reference_kernels xflip_half None (fixed_draws (3 / 4) 1) 1 = 0 \<and>
   value3 (select_geometric reference_kernels xflip_half None (fixed_draws (3 / 4) 1) 4 4) 0 = I_3 \<and>
   value3 (select_geometric reference_kernels xflip_half None (fixed_draws (3 / 4) 1) 4 4) 1 = I_3 \<and>
   geometric_pending (select_geometric reference_kernels xflip_half None (fixed_draws (3 / 4) 1) 4 4) \<and>
   geometric_stage reference_kernels xflip_half None (fixed_draws (3 / 4) 1) (2, 3, 4, 4)
       (ramp_image 2 3 4 4)
     = execute_geometric reference_kernels xflip_half (\<lambda>b. I_3) (2, 3, 4, 4) (ramp_image 2 3 4 4)"
  by (simp add: xflip_half_def default_pipe_def AugmentPipe_init_def fixed_draws_def sample_xflip_def
      torch_where_def select_geometric_def matmul_r3_def value3_def value3_Fresh scale2d_inv_def
      scale2d_def geometric_pending_def geometric_stage_def I_3_def)

section \<open>The channel-count error\<close>

lemma color_pending_iff:
  "color_pending (select_color K pipe dbg rnd c) = color_enabled pipe c"
  by (simp add: select_color_def color_pending_def color_enabled_def matmul_l4_def Let_def)

lemma execute_color_bad_channels:
  "c \<noteq> 1 \<Longrightarrow> c \<noteq> 3 \<Longrightarrow>
   execute_color M (n, c, h, w) x =
     (if numel x = n * c * (h * w) then Inl ValueError else Inl RuntimeError)"
  by (simp add: execute_color_def reshape_def bind_err_def)

text \<open>
  Claim C4, as the code has it. The channel check is the last branch of the color executor,
  which runs only when \<^verbatim>\<open>C is not I_4\<close>. For a batch whose channel count is neither
  1 nor 3 and a configuration with some color augmentation enabled, \<^verbatim>\<open>forward\<close>
  always raises and returns no tensor: the error of the geometric stage if that stage raised,
  otherwise \<^verbatim>\<open>ValueError\<close> (or the reshape error, should the resampled batch have lost
  its element count).
\<close>

theorem channel_count_error:
  assumes "dim_c images \<noteq> 1" and "dim_c images \<noteq> 3"
    and "color_enabled pipe (dim_c images)"
  shows "forward K pipe images dbg rnd =
     (case geometric_stage K pipe dbg rnd (dim_n images, dim_c images, dim_h images, dim_w images) images
      of Inl e \<Rightarrow> Inl e
       | Inr resampled \<Rightarrow>
           if numel resampled = numel images then Inl ValueError else Inl RuntimeError)"
  using assms
  by (simp add: forward_def color_stage_def color_pending_iff execute_color_bad_channels
      bind_err_def numel_def mult.assoc split: sum.splits)

theorem channel_count_error_witness:
  "forward reference_kernels
     (default_pipe\<lparr>brightness := 1\<rparr>)
     (ramp_image 2 2 4 4) None (fixed_draws (1 / 2) 1) = Inl ValueError"
  using channel_count_error [of "ramp_image 2 2 4 4"
      "default_pipe\<lparr>brightness := 1\<rparr>"
      reference_kernels None "fixed_draws (1 / 2) 1"]
  by (simp add: color_enabled_def default_pipe_def AugmentPipe_init_def ramp_image_def geometric_stage_def
      select_geometric_def geometric_pending_def)

text \<open>
  The claim as stated fails: a pipeline built with the constructor defaults returns a
  2-channel batch unchanged, without any error.
\<close>

theorem channel_count_error_counterexample:
  "dim_c (ramp_image 2 2 4 4) = 2 \<and>
   forward reference_kernels default_pipe
     (ramp_image 2 2 4 4) None (fixed_draws (1 / 2) 1) = Inr (ramp_image 2 2 4 4)"
  by (simp add: ramp_image_def default_pipe_def AugmentPipe_init_def forward_def geometric_stage_def
      color_stage_def filter_stage_def noise_stage_def cutout_stage_def select_geometric_def
      select_color_def geometric_pending_def color_pending_def bind_err_def)

section \<open>Grayscale batches\<close>

lemma samplers_ignore_hue_saturation:
  "sample_brightness K (pipe\<lparr>hue := a, saturation := c\<rparr>) dbg rnd = sample_brightness K pipe dbg rnd"
  "sample_contrast K (pipe\<lparr>hue := a, saturation := c\<rparr>) dbg rnd = sample_contrast K pipe dbg rnd"
  "sample_lumaflip K (pipe\<lparr>hue := a, saturation := c\<rparr>) dbg rnd = sample_lumaflip K pipe dbg rnd"
  by (rule ext, simp add: sample_brightness_def sample_contrast_def sample_lumaflip_def
      split: option.split)+

text \<open>
  Claim C10. For a 1-channel batch the accumulated color matrix is built from the
  brightness, contrast and luma-flip factors only: it is the same for every value of the
  hue and saturation multipliers, for every strength and debug percentile, and so is the
  result of the color stage.
\<close>

theorem grayscale_skips_hue_saturation:
  "select_color K pipe dbg rnd 1 =
     (let C = Eye_object;
          C = (if brightness pipe > 0
               then matmul_l4 (\<lambda>b. brightness_matrix (sample_brightness K pipe dbg rnd b)) C else C);
          C = (if contrast pipe > 0
               then matmul_l4 (\<lambda>b. contrast_matrix (sample_contrast K pipe dbg rnd b)) C else C);
          C = (if lumaflip pipe > 0
               then matmul_l4 (\<lambda>b. lumaflip_matrix (sample_lumaflip K pipe dbg rnd b)) C else C)
      in C) \<and>
   select_color K (pipe\<lparr>hue := q_hue, saturation := q_sat\<rparr>) dbg rnd 1 = select_color K pipe dbg rnd 1 \<and>
   color_stage K (pipe\<lparr>hue := q_hue, saturation := q_sat\<rparr>) dbg rnd (n, 1, h, w) images
     = color_stage K pipe dbg rnd (n, 1, h, w) images"
  by (simp add: select_color_def color_stage_def Let_def samplers_ignore_hue_saturation)

theorem grayscale_skips_hue_saturation_witness:
  "select_color reference_kernels
     (default_pipe\<lparr>hue := 1, saturation := 1\<rparr>)
     (Some (1 / 2)) (fixed_draws (1 / 4) 1) 1 = Eye_object"
  using grayscale_skips_hue_saturation [of reference_kernels
      "default_pipe\<lparr>hue := 1, saturation := 1\<rparr>"
      "Some (1 / 2)" "fixed_draws (1 / 4) 1"]
  by (simp add: default_pipe_def AugmentPipe_init_def)

section \<open>Order of the pixel-blitting composition\<close>

lemma mm3_I_3_left: "mm3 I_3 M = M"
  by (cases M rule: prod_cases3, rename_tac r0 r1 r2,
      case_tac r0 rule: prod_cases3, case_tac r1 rule: prod_cases3, case_tac r2 rule: prod_cases3)
     (simp add: I_3_def)

text \<open>
  Claim C9. With x-flip, 90-degree rotation and integer translation enabled and the other
  geometric augmentations off, the accumulated \<^verbatim>\<open>G_inv\<close> of each batch element is
  the product, from left to right, of the flip inverse, the rotation inverse and the
  translation inverse built from that element's parameters (random or given by the debug
  percentile).
\<close>

theorem composition_order:
  assumes "xflip pipe > 0" and "rotate90 pipe > 0" and "xint pipe > 0"
    and "scale pipe \<le> 0" and "rotate pipe \<le> 0" and "aniso pipe \<le> 0" and "xfrac pipe \<le> 0"
  shows "select_geometric K pipe dbg rnd width height =
     Fresh (\<lambda>b. mm3 (mm3 (scale2d_inv (1 - 2 * sample_xflip K pipe dbg rnd b) 1)
                          (rotate2d_inv (- pi / 2 * sample_rotate90 K pipe dbg rnd b)))
                     (translate2d_inv
                        (torch_round (sample_xint K pipe dbg rnd b 0 * real width))
                        (torch_round (sample_xint K pipe dbg rnd b 1 * real height))))"
  using assms
  by (simp add: select_geometric_def matmul_r3_def value3_def mm3_I_3_left)

text \<open>
  At a flip, a half turn and a translation by one pixel in each axis the product is
  computed, and differs from the product taken in the reverse order.
\<close>

theorem composition_order_witness:
  "value3 (select_geometric reference_kernels blit_pipe None blit_draws 16 16) 0
     = mm3 (mm3 (scale2d_inv (- 1) 1) (rotate2d_inv (- pi))) (translate2d_inv 1 1) \<and>
   value3 (select_geometric reference_kernels blit_pipe None blit_draws 16 16) 0
     = ((1, 0, - 1), (0, - 1, 1), (0, 0, 1)) \<and>
   mm3 (mm3 (translate2d_inv 1 1) (rotate2d_inv (- pi))) (scale2d_inv (- 1) 1)
     = ((1, 0, - 1), (0, - 1, - 1), (0, 0, 1))"
  using composition_order [of blit_pipe reference_kernels None blit_draws 16 16]
  by (simp add: blit_pipe_def blit_draws_def default_pipe_def AugmentPipe_init_def value3_def sample_xflip_def
      sample_rotate90_def sample_xint_def torch_where_def torch_floor_def torch_round_def
      scale2d_inv_def scale2d_def rotate2d_inv_def rotate2d_def translate2d_inv_def
      translate2d_def Let_def)

section \<open>Gates whose probability product exceeds one\<close>

lemma unit_interval_below:
  "unit_interval rnd \<Longrightarrow> 1 < t \<Longrightarrow> rand rnd s idx < t"
  by (metis unit_interval_def less_trans)

lemma unit_interval_below_one:
  "unit_interval rnd \<Longrightarrow> rand rnd s idx < 1"
  by (simp add: unit_interval_def)

lemma p_rot_saturated: "1 < rotate pipe * p pipe \<Longrightarrow> p_rot pipe = 1"
  by (simp add: p_rot_def clamp_def max_def min_def)

text \<open>
  Claim C7. On the random path, with every uniform draw in the half-open unit interval, a
  gate whose probability product exceeds 1 always selects the sampled magnitude in
  \<^verbatim>\<open>torch.where\<close>, never the identity value; no error is involved. The product
  is \<^verbatim>\<open>q * p\<close> for every gate except the frequency bands, where it is
  \<^verbatim>\<open>imgfilter * p * band_strength\<close>; for the two rotation stages the threshold
  \<^verbatim>\<open>p_rot\<close> is 1 as soon as \<^verbatim>\<open>rotate * p\<close> exceeds 1.
\<close>

theorem oversaturated_gate_always_fires:
  assumes "unit_interval rnd"
  shows
   "(1 < xflip pipe * p pipe \<longrightarrow>
       sample_xflip K pipe None rnd b = torch_floor (rand rnd Xflip_i [b] * 2)) \<and>
    (1 < rotate90 pipe * p pipe \<longrightarrow>
       sample_rotate90 K pipe None rnd b = torch_floor (rand rnd Rot90_i [b] * 4)) \<and>
    (1 < xint pipe * p pipe \<longrightarrow>
       sample_xint K pipe None rnd b k = (rand rnd Xint_t [b, k] * 2 - 1) * xint_max pipe) \<and>
    (1 < scale pipe * p pipe \<longrightarrow>
       sample_scale K pipe None rnd b = exp2 (randn rnd Scale_s [b] * scale_std pipe)) \<and>
    (1 < rotate pipe * p pipe \<longrightarrow>
       sample_pre_rotation K pipe None rnd b = (rand rnd Pre_theta [b] * 2 - 1) * pi * rotate_max pipe \<and>
       sample_post_rotation K pipe None rnd b = (rand rnd Post_theta [b] * 2 - 1) * pi * rotate_max pipe) \<and>
    (1 < aniso pipe * p pipe \<longrightarrow>
       sample_aniso K pipe None rnd b = exp2 (randn rnd Aniso_s [b] * aniso_std pipe)) \<and>
    (1 < xfrac pipe * p pipe \<longrightarrow>
       sample_xfrac K pipe None rnd b k = randn rnd Xfrac_t [b, k] * xfrac_std pipe) \<and>
    (1 < brightness pipe * p pipe \<longrightarrow>
       sample_brightness K pipe None rnd b = randn rnd Bright_b [b] * brightness_std pipe) \<and>
    (1 < contrast pipe * p pipe \<longrightarrow>
       sample_contrast K pipe None rnd b = exp2 (randn rnd Contrast_c [b] * contrast_std pipe)) \<and>
    (1 < lumaflip pipe * p pipe \<longrightarrow>
       sample_lumaflip K pipe None rnd b = torch_floor (rand rnd Luma_i [b, 0, 0] * 2)) \<and>
    (1 < hue pipe * p pipe \<longrightarrow>
       sample_hue K pipe None rnd b = (rand rnd Hue_theta [b] * 2 - 1) * pi * hue_max pipe) \<and>
    (1 < saturation pipe * p pipe \<longrightarrow>
       sample_saturation K pipe None rnd b = exp2 (randn rnd Sat_s [b, 0, 0] * saturation_std pipe)) \<and>
    (1 < imgfilter pipe * p pipe * band_strength \<longrightarrow>
       sample_band K pipe None rnd i band_strength b
         = exp2 (randn rnd (Filt_t i) [b] * imgfilter_std pipe)) \<and>
    (1 < noise pipe * p pipe \<longrightarrow>
       sample_noise K pipe None rnd b = \<bar>randn rnd Noise_sigma [b, 0, 0, 0]\<bar> * noise_std pipe) \<and>
    (1 < cutout pipe * p pipe \<longrightarrow>
       sample_cutout_size pipe None rnd b k = cutout_size pipe)"
  using assms
  by (simp add: unit_interval_below unit_interval_below_one p_rot_saturated torch_where_def
      sample_xflip_def sample_rotate90_def sample_xint_def sample_scale_def
      sample_pre_rotation_def sample_aniso_def sample_post_rotation_def sample_xfrac_def
      sample_brightness_def sample_contrast_def sample_lumaflip_def sample_hue_def
      sample_saturation_def sample_band_def sample_noise_def sample_cutout_size_def)

theorem oversaturated_gate_always_fires_witness:
  "unit_interval (fixed_draws (3 / 4) 2) \<and>
   1 < xflip saturated_pipe * p saturated_pipe \<and>
   sample_xflip reference_kernels saturated_pipe None (fixed_draws (3 / 4) 2) 0 = 1 \<and>
   1 < rotate saturated_pipe * p saturated_pipe \<and>
   sample_pre_rotation reference_kernels saturated_pipe None (fixed_draws (3 / 4) 2) 0 = pi / 2 \<and>
   1 < noise saturated_pipe * p saturated_pipe \<and>
   sample_noise reference_kernels saturated_pipe None (fixed_draws (3 / 4) 2) 0 = 1 / 5"
proof -
  have u: "unit_interval (fixed_draws (3 / 4) 2)"
    by (simp add: unit_interval_def fixed_draws_def)
  show ?thesis
    using u oversaturated_gate_always_fires [OF u, of saturated_pipe reference_kernels 0]
    by (simp add: saturated_pipe_def default_pipe_def AugmentPipe_init_def fixed_draws_def torch_floor_def)
qed

section \<open>The rotation split\<close>




section \<open>Cutout\<close>

text \<open>
  Claim C8. When the cutout gate fires for batch element \<^verbatim>\<open>n\<close>, the mask is 0
  exactly at the pixels whose centre lies strictly within half the relative size of the
  sampled centre along both axes, and the output pixel is 0 there and the input pixel
  everywhere else: the interior rectangle is zeroed.
\<close>

theorem cutout_rectangle:
  assumes "cutout pipe > 0"
    and "rand rnd Cut_u [n, 0, 0, 0, 0] < cutout pipe * p pipe"
  shows
   "(cutout_mask pipe None rnd height width n y x = 0 \<longleftrightarrow>
       \<bar>(real x + 0.5) / real width - rand rnd Cut_center [n, 0, 0, 0, 0]\<bar> < cutout_size pipe / 2 \<and>
       \<bar>(real y + 0.5) / real height - rand rnd Cut_center [n, 1, 0, 0, 0]\<bar> < cutout_size pipe / 2) \<and>
    px (cutout_stage pipe None rnd (batch_size, num_channels, height, width) images) n c y x =
      (if \<bar>(real x + 0.5) / real width - rand rnd Cut_center [n, 0, 0, 0, 0]\<bar> < cutout_size pipe / 2 \<and>
          \<bar>(real y + 0.5) / real height - rand rnd Cut_center [n, 1, 0, 0, 0]\<bar> < cutout_size pipe / 2
       then 0 else px images n c y x)"
  using assms
  by (auto simp add: cutout_stage_def cutout_mask_def mask_x_def mask_y_def
      sample_cutout_size_def sample_cutout_center_def torch_where_def)

theorem cutout_rectangle_witness:
  "cutout cutout_pipe > 0 \<and>
   rand (fixed_draws (1 / 2) 0) Cut_u [0, 0, 0, 0, 0] < cutout cutout_pipe * p cutout_pipe \<and>
   px (cutout_stage cutout_pipe None (fixed_draws (1 / 2) 0) (1, 3, 4, 4) (ones_image 1 3 4 4)) 0 0 1 1 = 0 \<and>
   px (cutout_stage cutout_pipe None (fixed_draws (1 / 2) 0) (1, 3, 4, 4) (ones_image 1 3 4 4)) 0 0 0 1 = 1 \<and>
   px (cutout_stage cutout_pipe None (fixed_draws (1 / 2) 0) (1, 3, 4, 4) (ones_image 1 3 4 4)) 0 0 1 0 = 1 \<and>
   px (cutout_stage cutout_pipe None (fixed_draws (1 / 2) 0) (1, 3, 4, 4) (ones_image 1 3 4 4)) 0 0 0 0 = 1"
proof -
  have a: "cutout cutout_pipe > 0"
    by (simp add: cutout_pipe_def default_pipe_def AugmentPipe_init_def)
  have b: "rand (fixed_draws (1 / 2) 0) Cut_u [0, 0, 0, 0, 0] < cutout cutout_pipe * p cutout_pipe"
    by (simp add: cutout_pipe_def default_pipe_def AugmentPipe_init_def fixed_draws_def)
  have c: "cutout_size cutout_pipe = 1 / 2"
    by (simp add: cutout_pipe_def default_pipe_def AugmentPipe_init_def)
  show ?thesis
    using a b
      cutout_rectangle [OF a b, of 4 4 1 1 1 3 "ones_image 1 3 4 4" 0]
      cutout_rectangle [OF a b, of 4 4 0 1 1 3 "ones_image 1 3 4 4" 0]
      cutout_rectangle [OF a b, of 4 4 1 0 1 3 "ones_image 1 3 4 4" 0]
      cutout_rectangle [OF a b, of 4 4 0 0 1 3 "ones_image 1 3 4 4" 0]
    by (simp add: c fixed_draws_def ones_image_def)
qed

section \<open>The debug path\<close>

lemma debug_samplers:
  "sample_xflip K pipe (Some d) rnd b = torch_floor (d * 2)"
  "sample_rotate90 K pipe (Some d) rnd b = torch_floor (d * 4)"
  "sample_xint K pipe (Some d) rnd b k = (d * 2 - 1) * xint_max pipe"
  "sample_scale K pipe (Some d) rnd b = exp2 (erfinv K (d * 2 - 1) * scale_std pipe)"
  "sample_pre_rotation K pipe (Some d) rnd b = (d * 2 - 1) * pi * rotate_max pipe"
  "sample_aniso K pipe (Some d) rnd b = exp2 (erfinv K (d * 2 - 1) * aniso_std pipe)"
  "sample_post_rotation K pipe (Some d) rnd b = 0"
  "sample_xfrac K pipe (Some d) rnd b k = erfinv K (d * 2 - 1) * xfrac_std pipe"
  "sample_brightness K pipe (Some d) rnd b = erfinv K (d * 2 - 1) * brightness_std pipe"
  "sample_contrast K pipe (Some d) rnd b = exp2 (erfinv K (d * 2 - 1) * contrast_std pipe)"
  "sample_lumaflip K pipe (Some d) rnd b = torch_floor (d * 2)"
  "sample_hue K pipe (Some d) rnd b = (d * 2 - 1) * pi * hue_max pipe"
  "sample_saturation K pipe (Some d) rnd b = exp2 (erfinv K (d * 2 - 1) * saturation_std pipe)"
  "sample_band K pipe (Some d) rnd i band_strength b =
     (if band_strength > 0 then exp2 (erfinv K (d * 2 - 1) * imgfilter_std pipe) else 1)"
  "sample_noise K pipe (Some d) rnd b = erfinv K d * noise_std pipe"
  "sample_cutout_size pipe (Some d) rnd b k = cutout_size pipe"
  "sample_cutout_center pipe (Some d) rnd b k = d"
  by (simp_all add: sample_xflip_def sample_rotate90_def sample_xint_def sample_scale_def
      sample_pre_rotation_def sample_aniso_def sample_post_rotation_def sample_xfrac_def
      sample_brightness_def sample_contrast_def sample_lumaflip_def sample_hue_def
      sample_saturation_def sample_band_def sample_noise_def sample_cutout_size_def
      sample_cutout_center_def)

lemma debug_select_geometric:
  "select_geometric K pipe (Some d) rnd w h = select_geometric K pipe (Some d) rnd' w h"
  by (simp add: select_geometric_def Let_def debug_samplers)

lemma debug_geometric_stage:
  "geometric_stage K pipe (Some d) rnd shp x = geometric_stage K pipe (Some d) rnd' shp x"
  by (cases shp) (simp add: geometric_stage_def debug_select_geometric [of K pipe d rnd _ _ rnd'])

lemma debug_select_color:
  "select_color K pipe (Some d) rnd c = select_color K pipe (Some d) rnd' c"
  by (simp add: select_color_def Let_def debug_samplers)

lemma debug_color_stage:
  "color_stage K pipe (Some d) rnd shp x = color_stage K pipe (Some d) rnd' shp x"
  by (cases shp) (simp add: color_stage_def debug_select_color [of K pipe d rnd _ rnd'])

lemma debug_Hz_prime:
  "Hz_prime K pipe (Some d) rnd = Hz_prime K pipe (Some d) rnd'"
  by (intro ext) (simp add: Hz_prime_def global_gain_def band_gain_def debug_samplers)

lemma debug_filter_stage:
  "filter_stage K pipe (Some d) rnd shp x = filter_stage K pipe (Some d) rnd' shp x"
  by (cases shp)
     (simp add: filter_stage_def Let_def weight_horizontal_def weight_vertical_def
        debug_Hz_prime [of K pipe d rnd rnd'])

lemma debug_cutout_stage:
  "cutout_stage pipe (Some d) rnd shp x = cutout_stage pipe (Some d) rnd' shp x"
  by (cases shp)
     (simp add: cutout_stage_def cutout_mask_def mask_x_def mask_y_def debug_samplers)

lemma debug_noise_stage:
  "noise pipe \<le> 0 \<or> erfinv K d * noise_std pipe = 0 \<Longrightarrow>
   noise_stage K pipe (Some d) rnd x = noise_stage K pipe (Some d) rnd' x"
  by (auto simp add: noise_stage_def debug_samplers)

text \<open>
  Claim C2, as the code has it. With a debug percentile, every sampled parameter is
  overwritten by a value computed from the percentile alone, so the draws no longer reach
  the output, with one exception: the additive noise field \<^verbatim>\<open>torch.randn\<close> of
  line 422 is still drawn and scaled by the debug sigma. Two calls with the same batch,
  configuration and debug percentile return the same result for any two generators whenever
  noise is off (multiplier at most 0) or the debug sigma is 0.
\<close>

theorem debug_determinism:
  assumes "noise pipe \<le> 0 \<or> erfinv K d * noise_std pipe = 0"
  shows "forward K pipe images (Some d) rnd = forward K pipe images (Some d) rnd'"
  unfolding forward_def Let_def
  by (simp only: debug_geometric_stage [of K pipe d rnd _ _ rnd']
      debug_color_stage [of K pipe d rnd _ _ rnd'] debug_filter_stage [of K pipe d rnd _ _ rnd']
      debug_cutout_stage [of pipe d rnd _ _ rnd'] debug_noise_stage [OF assms, of rnd _ rnd'])

theorem debug_determinism_witness:
  "(noise debug_pipe \<le> 0 \<or> erfinv reference_kernels (1 / 2) * noise_std debug_pipe = 0) \<and>
   forward reference_kernels debug_pipe (ramp_image 1 3 4 4) (Some (1 / 2)) (fixed_draws (1 / 4) 0)
     = forward reference_kernels debug_pipe (ramp_image 1 3 4 4) (Some (1 / 2)) (fixed_draws (3 / 4) 1)"
proof -
  have a: "noise debug_pipe \<le> 0 \<or> erfinv reference_kernels (1 / 2) * noise_std debug_pipe = 0"
    by (simp add: debug_pipe_def default_pipe_def AugmentPipe_init_def)
  show ?thesis
    using a debug_determinism [OF a, of "ramp_image 1 3 4 4" "fixed_draws (1 / 4) 0"
        "fixed_draws (3 / 4) 1"]
    by simp
qed

text \<open>
  The claim as stated fails: with \<^verbatim>\<open>noise = 1\<close> and debug percentile 0.5 the sigma
  is \<^verbatim>\<open>erfinv(0.5) * 0.1\<close>, nonzero (0.05 with the reference stand-in), and two
  generators that differ in the noise field give different outputs.
\<close>

lemma noisy_forward:
  "forward reference_kernels noisy_pipe (ramp_image 1 3 4 4) (Some (1 / 2)) (fixed_draws u g) =
     Inr ((ramp_image 1 3 4 4)\<lparr>px := (\<lambda>n c y z. px (ramp_image 1 3 4 4) n c y z + g * (1 / 20))\<rparr>)"
  by (simp add: noisy_pipe_def default_pipe_def AugmentPipe_init_def forward_def geometric_stage_def
      color_stage_def filter_stage_def noise_stage_def cutout_stage_def select_geometric_def
      select_color_def geometric_pending_def color_pending_def bind_err_def sample_noise_def
      fixed_draws_def reference_kernels_def)

theorem debug_determinism_counterexample:
  "forward reference_kernels noisy_pipe (ramp_image 1 3 4 4) (Some (1 / 2)) (fixed_draws (1 / 2) 0)
     \<noteq> forward reference_kernels noisy_pipe (ramp_image 1 3 4 4) (Some (1 / 2)) (fixed_draws (1 / 2) 1)"
proof
  assume "forward reference_kernels noisy_pipe (ramp_image 1 3 4 4) (Some (1 / 2)) (fixed_draws (1 / 2) 0)
     = forward reference_kernels noisy_pipe (ramp_image 1 3 4 4) (Some (1 / 2)) (fixed_draws (1 / 2) 1)"
  then have "px ((ramp_image 1 3 4 4)\<lparr>px := (\<lambda>n c y z. px (ramp_image 1 3 4 4) n c y z + 0 * (1 / 20))\<rparr>) 0 0 0 0
     = px ((ramp_image 1 3 4 4)\<lparr>px := (\<lambda>n c y z. px (ramp_image 1 3 4 4) n c y z + 1 * (1 / 20))\<rparr>) 0 0 0 0"
    by (simp only: noisy_forward sum.inject)
  then show False
    by simp
qed

section \<open>Shape invariance\<close>

lemma half_sum: "((a::int) + 1) div 2 + a div 2 = a"
  by presburger

lemma downsample_size_crop:
  assumes "int m + 2 * pd = 2 * int h"
  shows "downsample_size m fw 2 pd = h"
proof -
  have "(int fw - 2 + 1) div 2 + (int fw - 2) div 2 = int fw - 2"
    by (rule half_sum)
  then have "int (m * 1) + (pd + (int fw - int 2 + 1) div 2)
       + (pd + (int fw - int 2) div 2) - int fw = 2 * int h - 2"
    using assms by simp
  then show ?thesis
    unfolding downsample_size_def upfirdn_size_def by simp
qed

lemma reduce_max_nonempty: "xs \<noteq> [] \<Longrightarrow> \<exists>m. reduce_max xs = Inr m"
  by (cases xs) (simp_all add: reduce_max_def)

lemma corner_xs_nonempty: "0 < n \<Longrightarrow> corner_xs G n w h \<noteq> []"
  by (cases n) (simp_all add: corner_xs_def corner_points_def Let_def upt_rec del: upt_Suc)

lemma corner_ys_nonempty: "0 < n \<Longrightarrow> corner_ys G n w h \<noteq> []"
  by (cases n) (simp_all add: corner_ys_def corner_points_def Let_def upt_rec del: upt_Suc)

lemma clamp_margin_range:
  assumes "1 \<le> w"
  shows "0 \<le> clamp_margin m off (real w - 1) \<and> clamp_margin m off (real w - 1) < int w"
proof -
  have "min (max (m + off) 0) (real w - 1) \<le> real_of_int (int w - 1)"
    by simp
  then have "\<lceil>min (max (m + off) 0) (real w - 1)\<rceil> \<le> int w - 1"
    by (simp only: ceiling_le_iff)
  moreover have "0 \<le> min (max (m + off) 0) (real w - 1)"
    using assms by simp
  then have "0 \<le> \<lceil>min (max (m + off) 0) (real w - 1)\<rceil>"
    by (simp add: ceiling_le_iff [symmetric] order_trans [OF _ le_of_int_ceiling])
  ultimately show ?thesis
    by (simp add: clamp_margin_def torch_ceil_def)
qed

lemma calculate_padding_ok:
  assumes "0 < n" and "1 \<le> w" and "1 \<le> h"
  shows "\<exists>mx0 my0 mx1 my1. calculate_padding pipe G n w h = Inr (mx0, my0, mx1, my1) \<and>
      0 \<le> mx0 \<and> mx0 < int w \<and> 0 \<le> my0 \<and> my0 < int h \<and>
      0 \<le> mx1 \<and> mx1 < int w \<and> 0 \<le> my1 \<and> my1 < int h"
proof -
  obtain a where a: "reduce_max (map uminus (corner_xs G n w h)) = Inr a"
    using reduce_max_nonempty [of "map uminus (corner_xs G n w h)"] corner_xs_nonempty [OF assms(1)]
    by auto
  obtain b where b: "reduce_max (map uminus (corner_ys G n w h)) = Inr b"
    using reduce_max_nonempty [of "map uminus (corner_ys G n w h)"] corner_ys_nonempty [OF assms(1)]
    by auto
  obtain c where c: "reduce_max (corner_xs G n w h) = Inr c"
    using reduce_max_nonempty corner_xs_nonempty [OF assms(1)] by blast
  obtain d where d: "reduce_max (corner_ys G n w h) = Inr d"
    using reduce_max_nonempty corner_ys_nonempty [OF assms(1)] by blast
  show ?thesis
    using clamp_margin_range [OF assms(2)] clamp_margin_range [OF assms(3)]
    by (simp add: calculate_padding_def Let_def a b c d bind_err_def)
qed

lemma shape_of_eq:
  "shape_of x = (n, c, h, w) \<longleftrightarrow> dim_n x = n \<and> dim_c x = c \<and> dim_h x = h \<and> dim_w x = w"
  by (simp add: shape_of_def)

lemma execute_geometric_shape:
  assumes K: "kernel_shapes K" and n: "0 < n" and w: "1 \<le> w" and h: "1 \<le> h"
    and x: "shape_of x = (n, c, h, w)"
  shows "\<exists>y. execute_geometric K pipe G (n, c, h, w) x = Inr y \<and> shape_of y = (n, c, h, w)"
proof -
  obtain mx0 my0 mx1 my1 where pad: "calculate_padding pipe G n w h = Inr (mx0, my0, mx1, my1)"
    and r: "0 \<le> mx0" "mx0 < int w" "0 \<le> my0" "my0 < int h"
           "0 \<le> mx1" "mx1 < int w" "0 \<le> my1" "my1 < int h"
    using calculate_padding_ok [OF n w h, of pipe G] by blast
  have rp: "reflect_pad K x (mx0, mx1, my0, my1) = Inr (pad_reflect K x (mx0, mx1, my0, my1))"
    using r x by (simp add: reflect_pad_def shape_of_eq)
  have p: "dim_n (pad_reflect K x (mx0, mx1, my0, my1)) = n"
          "dim_c (pad_reflect K x (mx0, mx1, my0, my1)) = c"
    using K x by (simp_all add: kernel_shapes_def shape_of_eq)
  have u: "dim_n (upsample2d K (pad_reflect K x (mx0, mx1, my0, my1)) f 2) = n"
          "dim_c (upsample2d K (pad_reflect K x (mx0, mx1, my0, my1)) f 2) = c" for f
    using K p by (simp_all add: kernel_shapes_def shape_of_eq)
  have g: "shape_of (grid_sample K (upsample2d K (pad_reflect K x (mx0, mx1, my0, my1)) f 2)
                 (affine_grid K theta (n, c, hh, ww))) = (n, c, hh, ww)" for f theta hh ww
    using K u [of f] by (simp add: kernel_shapes_def)
  have d: "shape_of (downsample2d K y f 2 pd True) =
      (dim_n y, dim_c y, downsample_size (dim_h y) (length f) 2 pd,
       downsample_size (dim_w y) (length f) 2 pd)" for y f pd
    using K by (simp add: kernel_shapes_def)
  show ?thesis
    using g [unfolded shape_of_eq]
    by (simp add: execute_geometric_def pad rp bind_err_def Let_def d downsample_size_crop)
qed

lemma geometric_stage_shape:
  assumes "kernel_shapes K" and "geometric_enabled pipe \<longrightarrow> 0 < n" and "1 \<le> w" and "1 \<le> h"
    and "shape_of x = (n, c, h, w)"
  shows "\<exists>y. geometric_stage K pipe dbg rnd (n, c, h, w) x = Inr y \<and> shape_of y = (n, c, h, w)"
proof (cases "geometric_enabled pipe")
  case True
  then have "geometric_pending (select_geometric K pipe dbg rnd w h)"
    by (simp add: geometric_pending_iff)
  then show ?thesis
    using execute_geometric_shape [OF assms(1) _ assms(3,4,5)] assms(2) True
    by (simp add: geometric_stage_def)
next
  case False
  then have "\<not> geometric_pending (select_geometric K pipe dbg rnd w h)"
    by (simp add: geometric_pending_iff)
  then show ?thesis
    using assms(5) by (simp add: geometric_stage_def)
qed

lemma reshape_ok:
  "shape_of x = (n, c, h, w) \<Longrightarrow> n * c * h * w = n' * c' * h' * w' \<Longrightarrow>
   \<exists>y. reshape x (n', c', h', w') = Inr y \<and> shape_of y = (n', c', h', w')"
  by (simp add: reshape_def numel_def shape_of_eq)

lemma execute_color_shape:
  assumes "c = 1 \<or> c = 3" and "shape_of x = (n, c, h, w)"
  shows "\<exists>y. execute_color M (n, c, h, w) x = Inr y \<and> shape_of y = (n, c, h, w)"
proof -
  obtain y where y: "reshape x (n, c, 1, h * w) = Inr y" "shape_of y = (n, c, 1, h * w)"
    using reshape_ok [OF assms(2), of n c 1 "h * w"] by (auto simp add: mult.assoc)
  have s1: "shape_of (color_rgb M y) = (n, c, 1, h * w)"
    and s2: "shape_of (color_luma M y) = (n, c, 1, h * w)"
    using y(2) by (simp_all add: color_rgb_def color_luma_def shape_of_eq)
  show ?thesis
    using assms(1) y(1)
      reshape_ok [OF s1, of n c h w] reshape_ok [OF s2, of n c h w]
    by (auto simp add: execute_color_def bind_err_def mult.assoc)
qed

lemma color_stage_shape:
  assumes "c = 1 \<or> c = 3" and "shape_of x = (n, c, h, w)"
  shows "\<exists>y. color_stage K pipe dbg rnd (n, c, h, w) x = Inr y \<and> shape_of y = (n, c, h, w)"
  using execute_color_shape [OF assms] assms(2)
  by (simp add: color_stage_def Let_def)

lemma reshape_infer_ok: "0 < k \<Longrightarrow> reshape_infer (k * t) k = Inr t"
  by (simp add: reshape_infer_def)

lemma filter_stage_shape:
  assumes K: "kernel_shapes K"
    and ready: "imgfilter pipe > 0 \<longrightarrow> filter_ready pipe h w"
    and batch: "imgfilter pipe > 0 \<longrightarrow> 0 < n * c"
    and x: "shape_of x = (n, c, h, w)"
  shows "\<exists>y. filter_stage K pipe dbg rnd (n, c, h, w) x = Inr y \<and> shape_of y = (n, c, h, w)"
proof (cases "imgfilter pipe > 0")
  case False
  then show ?thesis
    using x by (simp add: filter_stage_def)
next
  case True
  define taps where "taps = fbank_taps (Hz_fbank pipe)"
  define q where "q = int (taps div 2)"
  have len: "length (imgfilter_bands pipe) = length (Hz_fbank pipe)"
    and bc: "broadcastable (length (Hz_fbank pipe))"
    and odd: "odd taps" and qh: "taps div 2 < h" and qw: "taps div 2 < w"
    using ready True by (simp_all add: filter_ready_def taps_def)
  have inf: "reshape_infer (n * c * taps) (n * c) = Inr taps"
    using batch True by (intro reshape_infer_ok) simp
  have taps2: "taps = 2 * (taps div 2) + 1"
    using odd by presburger
  obtain y where y: "reshape x (1, n * c, h, w) = Inr y" "shape_of y = (1, n * c, h, w)"
    using reshape_ok [OF x, of 1 "n * c" h w] by auto
  have rp: "reflect_pad K y (q, q, q, q) = Inr (pad_reflect K y (q, q, q, q))"
    using y(2) qh qw by (simp add: reflect_pad_def shape_of_eq q_def)
  have sp: "shape_of (pad_reflect K y (q, q, q, q)) =
      (1, n * c, h + 2 * (taps div 2), w + 2 * (taps div 2))"
    using K y(2) by (simp add: kernel_shapes_def shape_of_eq q_def nat_add_distrib)
  define wh where "wh = weight_horizontal K pipe dbg rnd n c taps"
  define wv where "wv = weight_vertical K pipe dbg rnd n c taps"
  have whs: "dim_n wh = n * c" "dim_h wh = 1" "dim_w wh = taps"
    by (simp_all add: wh_def weight_horizontal_def)
  have wvs: "dim_n wv = n * c" "dim_h wv = taps" "dim_w wv = 1"
    by (simp_all add: wv_def weight_vertical_def)
  have c1: "shape_of (conv2d K (pad_reflect K y (q, q, q, q)) wh (n * c)) =
      (1, n * c, h + 2 * (taps div 2), w + 2 * (taps div 2) + 1 - taps)"
    using K sp whs by (simp add: kernel_shapes_def shape_of_eq)
  have c2: "shape_of (conv2d K (conv2d K (pad_reflect K y (q, q, q, q)) wh (n * c)) wv (n * c)) =
      (1, n * c, h + 2 * (taps div 2) + 1 - taps, w + 2 * (taps div 2) + 1 - taps)"
    using K c1 wvs by (simp add: kernel_shapes_def shape_of_eq)
  have hh: "h + 2 * (taps div 2) + 1 - taps = h" and ww: "w + 2 * (taps div 2) + 1 - taps = w"
    using taps2 by linarith+
  have c3: "shape_of (conv2d K (conv2d K (pad_reflect K y (q, q, q, q)) wh (n * c)) wv (n * c)) =
      (1, n * c, h, w)"
    using c2 by (simp only: hh ww)
  obtain z where z: "reshape (conv2d K (conv2d K (pad_reflect K y (q, q, q, q)) wh (n * c)) wv (n * c))
      (n, c, h, w) = Inr z" "shape_of z = (n, c, h, w)"
    using reshape_ok [OF c3, of n c h w] by auto
  have "filter_stage K pipe dbg rnd (n, c, h, w) x = Inr z"
    unfolding filter_stage_def Let_def prod.case taps_def [symmetric]
    using True len bc y(1) rp z(1)
    by (simp add: inf bind_err_def q_def [symmetric] wh_def [symmetric] wv_def [symmetric])
  then show ?thesis
    using z(2) by simp
qed

lemma corruption_shape:
  "shape_of (cutout_stage pipe dbg rnd shp (noise_stage K pipe dbg rnd x)) = shape_of x"
  by (cases shp) (simp add: cutout_stage_def noise_stage_def shape_of_def)

text \<open>
  Claim C6, as the code has it. Let the kernels have their documented output sizes, the
  batch have 1 or 3 channels and height and width at least 1. If the batch is non-empty
  whenever a geometric augmentation or image filtering is enabled, and, whenever image
  filtering is enabled, there is one band strength per filter-bank row, the filter bank has
  four rows (or one) and the reflection pad (half the odd tap count) is narrower than the
  image, then for every strength, debug percentile and draw
  \<^verbatim>\<open>forward\<close> returns a tensor of the input's shape. In the geometric executor
  the computed margins are below the image size, so the reflection pad is accepted, and the
  downsample-and-crop of the resampled \<^verbatim>\<open>2 * (H + 2 * Hz_pad)\<close> rows gives back
  exactly \<^verbatim>\<open>H\<close> rows for every filter length (and likewise for the width).
\<close>

theorem shape_invariance:
  assumes "kernel_shapes K"
    and "dim_c images = 1 \<or> dim_c images = 3"
    and "1 \<le> dim_h images" and "1 \<le> dim_w images"
    and "geometric_enabled pipe \<or> imgfilter pipe > 0 \<longrightarrow> 1 \<le> dim_n images"
    and "imgfilter pipe > 0 \<longrightarrow> filter_ready pipe (dim_h images) (dim_w images)"
  shows "\<exists>out. forward K pipe images dbg rnd = Inr out \<and> shape_of out = shape_of images"
proof -
  define n c h w where "n = dim_n images" and "c = dim_c images"
    and "h = dim_h images" and "w = dim_w images"
  have x: "shape_of images = (n, c, h, w)"
    by (simp add: shape_of_def n_def c_def h_def w_def)
  have ge: "geometric_enabled pipe \<longrightarrow> 0 < n"
    using assms(5) by (auto simp add: n_def)
  have fe: "imgfilter pipe > 0 \<longrightarrow> 0 < n * c"
    using assms(2,5) by (auto simp add: n_def c_def)
  obtain y1 where y1: "geometric_stage K pipe dbg rnd (n, c, h, w) images = Inr y1"
      "shape_of y1 = (n, c, h, w)"
    using geometric_stage_shape [OF assms(1) ge _ _ x, of dbg rnd] assms(3,4)
    by (auto simp add: h_def w_def)
  obtain y2 where y2: "color_stage K pipe dbg rnd (n, c, h, w) y1 = Inr y2"
      "shape_of y2 = (n, c, h, w)"
    using color_stage_shape [OF _ y1(2), of K pipe dbg rnd] assms(2) by (auto simp add: c_def)
  obtain y3 where y3: "filter_stage K pipe dbg rnd (n, c, h, w) y2 = Inr y3"
      "shape_of y3 = (n, c, h, w)"
    using filter_stage_shape [OF assms(1) _ fe y2(2), of dbg rnd] assms(6)
    by (auto simp add: h_def w_def)
  show ?thesis
    using y1 y2 y3 x
    by (simp add: forward_def Let_def bind_err_def corruption_shape
        n_def [symmetric] c_def [symmetric] h_def [symmetric] w_def [symmetric])
qed

lemma reference_kernel_shapes: "kernel_shapes reference_kernels"
  by (simp add: kernel_shapes_def reference_kernels_def shape_of_def)

text \<open>
  A run with geometric, color, filtering, noise and cutout stages all enabled, on the
  pipeline the constructor builds from a 4-tap table (a 43-tap bank) and a 32x32 batch.
\<close>

theorem shape_invariance_witness:
  "AugmentPipe_new example_geom example_sym2 = Inr default_pipe \<and>
   kernel_shapes reference_kernels \<and>
   filter_ready full_pipe 32 32 \<and>
   (\<exists>out. forward reference_kernels full_pipe (ramp_image 2 3 32 32) None (fixed_draws (1 / 2) 1)
            = Inr out \<and> shape_of out = (2, 3, 32, 32))"
proof -
  have f: "filter_ready full_pipe 32 32"
    by (simp add: filter_ready_def full_pipe_def default_pipe_def AugmentPipe_init_def
        broadcastable_def expected_power_def example_fbank_rows example_fbank_taps)
  have g: "geometric_enabled full_pipe"
    by (simp add: geometric_enabled_def full_pipe_def default_pipe_def AugmentPipe_init_def)
  show ?thesis
    using default_pipe_constructed reference_kernel_shapes f g
      shape_invariance [of reference_kernels "ramp_image 2 3 32 32" full_pipe None
        "fixed_draws (1 / 2) 1"]
    by (simp add: ramp_image_def shape_of_def)
qed

text \<open>
  The claim as stated fails for four valid inputs: a configuration with three band
  strengths for the four filter-bank rows fails the assertion of line 362; an empty batch
  with x-flip enabled fails in the maximum over the corner coordinates (line 242); an empty
  batch with image filtering enabled fails in the reshape to \<^verbatim>\<open>[N * C, 1, -1]\<close>
  (line 394); a 4x4 batch with image filtering enabled is rejected by the reflection pad
  of 21 pixels (line 400). No tensor is returned in any of them.
\<close>

theorem shape_invariance_counterexample:
  "forward reference_kernels short_bands_pipe (ramp_image 2 3 32 32) None (fixed_draws (1 / 2) 1)
     = Inl AssertionError \<and>
   forward reference_kernels xflip_half (ramp_image 0 3 4 4) None (fixed_draws (1 / 2) 1)
     = Inl IndexError \<and>
   forward reference_kernels filter_pipe (ramp_image 0 3 32 32) None (fixed_draws (1 / 2) 1)
     = Inl RuntimeError \<and>
   forward reference_kernels filter_pipe (ramp_image 2 3 4 4) None (fixed_draws (1 / 2) 1)
     = Inl RuntimeError"
proof -
  have a: "forward reference_kernels short_bands_pipe (ramp_image 2 3 32 32) None
      (fixed_draws (1 / 2) 1) = Inl AssertionError"
    by (simp add: short_bands_pipe_def default_pipe_def AugmentPipe_init_def forward_def
        geometric_stage_def color_stage_def filter_stage_def select_geometric_def
        select_color_def geometric_pending_def color_pending_def bind_err_def
        example_fbank_rows)
  have b: "forward reference_kernels xflip_half (ramp_image 0 3 4 4) None
      (fixed_draws (1 / 2) 1) = Inl IndexError"
    by (simp add: xflip_half_def default_pipe_def AugmentPipe_init_def forward_def
        geometric_stage_def select_geometric_def geometric_pending_def matmul_r3_def
        execute_geometric_def calculate_padding_def corner_xs_def reduce_max_def bind_err_def
        ramp_image_def Let_def)
  have c: "forward reference_kernels filter_pipe (ramp_image 0 3 32 32) None
      (fixed_draws (1 / 2) 1) = Inl RuntimeError"
    by (simp add: filter_pipe_def default_pipe_def AugmentPipe_init_def forward_def
        geometric_stage_def color_stage_def filter_stage_def select_geometric_def
        select_color_def geometric_pending_def color_pending_def bind_err_def ramp_image_def
        broadcastable_def expected_power_def reshape_infer_def example_fbank_rows)
  have d: "forward reference_kernels filter_pipe (ramp_image 2 3 4 4) None
      (fixed_draws (1 / 2) 1) = Inl RuntimeError"
    by (simp add: filter_pipe_def default_pipe_def AugmentPipe_init_def forward_def
        geometric_stage_def color_stage_def filter_stage_def select_geometric_def
        select_color_def geometric_pending_def color_pending_def bind_err_def ramp_image_def
        broadcastable_def expected_power_def reshape_infer_def reshape_def numel_def
        reflect_pad_def example_fbank_rows example_fbank_taps)
  show ?thesis
    using a b c d by simp
qed

end
